theory Spec2Isabelle
  imports Complex_Main "HOL-Library.AList"
begin

section \<open>Host values, failures and backends\<close>

text \<open>
  The module \<^verbatim>\<open>sql/sqltypes.py\<close> converts values of the host language. The values that
  its processors inspect are: \<^verbatim>\<open>None\<close>, booleans, integers, finite floats (given by the
  number that they are; a finite \<^verbatim>\<open>decimal.Decimal\<close> and a \<^verbatim>\<open>fractions.Fraction\<close> compare,
  hash and convert as the float of the same number does), strings, members of an
  enumeration class (identified by the canonical name of the member), named symbols such as
  \<^verbatim>\<open>JSON.NULL\<close>, the SQL NULL element \<^verbatim>\<open>elements.Null()\<close>, and other objects, which are opaque
  and identified by an object number. Complex numbers, infinities and NaN are not
  represented.
\<close>

datatype pyval =
    PyNone
  | PyBool bool
  | PyInt int
  | PyFloat rat
  | PyStr string
  | PyMember string
  | PySymbol string
  | SqlNullElement
  | PyObject nat

text \<open>
  Failures are values. \<open>TypeError\<close>, \<open>ValueError\<close> and \<open>AttributeError\<close> carry the message
  template and the values formatted into it; \<open>LookupError\<close> carries the three values that
  \<^verbatim>\<open>Enum\<close> formats into its message: the offending element, the name of the enum and the
  list \<^verbatim>\<open>self.enums\<close> handed to \<^verbatim>\<open>langhelpers.repr_tuple_names\<close>.
\<close>

datatype error =
    TypeError string "pyval list"
  | ValueError string "pyval list"
  | KeyError pyval
  | AttributeError string
  | NotImplementedError
  | LookupError pyval "string option" "string list"

text \<open>
  The backend capability descriptor. \<open>visit_true\<close> and \<open>visit_false\<close> are the texts that
  the statement compiler of the dialect renders for the boolean constants;
  \<open>double_percents\<close> is \<^verbatim>\<open>dialect.identifier_preparer._double_percents\<close>.
\<close>

record dialect =
  name :: string
  supports_native_decimal :: bool
  supports_native_boolean :: bool
  supports_native_enum :: bool
  non_native_boolean_check_constraint :: bool
  double_percents :: bool
  visit_true :: string
  visit_false :: string
  json_serializer :: "(pyval \<Rightarrow> error + string) option"

text \<open>Truth value of a host value, as \<^verbatim>\<open>if value:\<close> and \<^verbatim>\<open>bool(value)\<close> compute it.\<close>

fun py_truthy :: "pyval \<Rightarrow> bool" where
  "py_truthy PyNone = False"
| "py_truthy (PyBool b) = b"
| "py_truthy (PyInt i) = (i \<noteq> 0)"
| "py_truthy (PyFloat r) = (r \<noteq> 0)"
| "py_truthy (PyStr s) = (s \<noteq> [])"
| "py_truthy (PyMember m) = True"
| "py_truthy (PySymbol s) = True"
| "py_truthy SqlNullElement = True"
| "py_truthy (PyObject n) = True"

text \<open>
  Equality of host values as \<^verbatim>\<open>==\<close> computes it, and as the hash agrees with it: numbers
  are equal when they are the same number, whatever their type, and \<^verbatim>\<open>bool\<close> is a subtype
  of \<^verbatim>\<open>int\<close>, so \<^verbatim>\<open>True == 1 == 1.0\<close> and \<^verbatim>\<open>False == 0 == 0.0\<close>; every other pair is
  equal when it is the same value.
\<close>

fun py_num :: "pyval \<Rightarrow> rat option" where
  "py_num (PyBool b) = Some (if b then 1 else 0)"
| "py_num (PyInt i) = Some (of_int i)"
| "py_num (PyFloat r) = Some r"
| "py_num PyNone = None"
| "py_num (PyStr s) = None"
| "py_num (PyMember m) = None"
| "py_num (PySymbol s) = None"
| "py_num SqlNullElement = None"
| "py_num (PyObject n) = None"

definition py_eq :: "pyval \<Rightarrow> pyval \<Rightarrow> bool" where
  "py_eq a b = (case (py_num a, py_num b) of
                  (Some x, Some y) \<Rightarrow> x = y
                | _ \<Rightarrow> a = b)"

text \<open>\<^verbatim>\<open>value in collection\<close>: some element of the collection equals the value.\<close>

definition py_in :: "pyval \<Rightarrow> pyval list \<Rightarrow> bool" where
  "py_in v xs = list_ex (py_eq v) xs"

text \<open>\<^verbatim>\<open>isinstance(value, int)\<close> and \<^verbatim>\<open>isinstance(value, str)\<close>.\<close>

fun isinstance_int :: "pyval \<Rightarrow> bool" where
  "isinstance_int (PyBool b) = True"
| "isinstance_int (PyInt i) = True"
| "isinstance_int v = False"

fun isinstance_str :: "pyval \<Rightarrow> bool" where
  "isinstance_str (PyStr s) = True"
| "isinstance_str v = False"


section \<open>Boolean: strict coercion\<close>

text \<open>
  \<^verbatim>\<open>
  _strict_bools = frozenset([None, True, False])

  def _strict_as_bool(self, value):
      if value not in self._strict_bools:
          if not isinstance(value, int):
              raise TypeError("Not a boolean value: %r" % (value,))
          else:
              raise ValueError(
                  "Value %r is not None, True, or False" % (value,)
              )
      return value
  \<close>
\<close>

definition strict_bools :: "pyval list" where
  "strict_bools = [PyNone, PyBool True, PyBool False]"

definition strict_as_bool :: "pyval \<Rightarrow> error + pyval" where
  "strict_as_bool v =
     (if \<not> py_in v strict_bools then
        (if \<not> isinstance_int v then Inl (TypeError ''Not a boolean value: %r'' [v])
         else Inl (ValueError ''Value %r is not None, True, or False'' [v]))
      else Inr v)"

text \<open>
  \<^verbatim>\<open>bool(value)\<close> and \<^verbatim>\<open>int(value)\<close>, the two coercions of the bind processor. They are
  applied to values that passed \<open>strict_as_bool\<close> only, which are numbers; \<^verbatim>\<open>int\<close> of a
  float truncates towards zero, and \<^verbatim>\<open>int\<close> of anything that is not a number is given as
  the failure it is for \<^verbatim>\<open>None\<close>.
\<close>

definition py_bool :: "pyval \<Rightarrow> error + pyval" where
  "py_bool v = Inr (PyBool (py_truthy v))"

definition py_int :: "pyval \<Rightarrow> error + pyval" where
  "py_int v = (case py_num v of
                 Some r \<Rightarrow> Inr (PyInt (if 0 \<le> r then floor r else ceiling r))
               | None \<Rightarrow> Inl (TypeError ''int() argument must be a number'' [v]))"

text \<open>
  \<^verbatim>\<open>
  def literal_processor(self, dialect):
      compiler = dialect.statement_compiler(dialect, None)
      true = compiler.visit_true(None)
      false = compiler.visit_false(None)

      def process(value):
          return true if self._strict_as_bool(value) else false

      return process

  def bind_processor(self, dialect):
      _strict_as_bool = self._strict_as_bool
      if dialect.supports_native_boolean:
          _coerce = bool
      else:
          _coerce = int

      def process(value):
          value = _strict_as_bool(value)
          if value is not None:
              value = _coerce(value)
          return value

      return process
  \<close>
\<close>

definition Boolean_literal_processor :: "dialect \<Rightarrow> pyval \<Rightarrow> error + string" where
  "Boolean_literal_processor d v =
     (case strict_as_bool v of
        Inl e \<Rightarrow> Inl e
      | Inr v' \<Rightarrow> Inr (if py_truthy v' then visit_true d else visit_false d))"

definition Boolean_bind_processor :: "dialect \<Rightarrow> pyval \<Rightarrow> error + pyval" where
  "Boolean_bind_processor d v =
     (let coerce = (if supports_native_boolean d then py_bool else py_int) in
      case strict_as_bool v of
        Inl e \<Rightarrow> Inl e
      | Inr v' \<Rightarrow> (if v' \<noteq> PyNone then coerce v' else Inr v'))"


text \<open>Two backends used in the examples: one emulates booleans and decimals, one has them.\<close>

definition emulating_dialect :: dialect where
  "emulating_dialect = \<lparr> name = ''sqlite'', supports_native_decimal = False,
     supports_native_boolean = False, supports_native_enum = False,
     non_native_boolean_check_constraint = True, double_percents = False,
     visit_true = ''1'', visit_false = ''0'', json_serializer = None \<rparr>"

definition native_dialect :: dialect where
  "native_dialect = \<lparr> name = ''postgresql'', supports_native_decimal = True,
     supports_native_boolean = True, supports_native_enum = True,
     non_native_boolean_check_constraint = True, double_percents = False,
     visit_true = ''true'', visit_false = ''false'', json_serializer = None \<rparr>"


section \<open>The classes of the module\<close>

text \<open>
  The generic type classes that \<^verbatim>\<open>sqltypes.py\<close> declares. \<open>Binary\<close> is \<^verbatim>\<open>_Binary\<close>;
  \<^verbatim>\<open>Interval\<close> stands for itself and its abstract base \<^verbatim>\<open>_AbstractInterval\<close>, which is
  never instantiated in this module. The upper-case SQL standard types
  (\<^verbatim>\<open>INTEGER\<close>, \<^verbatim>\<open>NUMERIC\<close>, \<^verbatim>\<open>VARCHAR\<close> and the others) are subclasses that declare a
  visit name only and run the methods of their generic base class; they are not listed.
\<close>

datatype tclass =
    String | Text | Unicode | UnicodeText
  | Integer | SmallInteger | BigInteger
  | Numeric | Float | Double
  | DateTime | Date | Time
  | Binary | LargeBinary
  | Enum | Boolean | MatchType
  | Interval
  | JSON | ARRAY | NullType

text \<open>The base class of a class, among the type classes (\<open>None\<close>: directly a TypeEngine).\<close>

fun superclass :: "tclass \<Rightarrow> tclass option" where
  "superclass Text = Some String"
| "superclass Unicode = Some String"
| "superclass UnicodeText = Some Text"
| "superclass SmallInteger = Some Integer"
| "superclass BigInteger = Some Integer"
| "superclass Float = Some Numeric"
| "superclass Double = Some Float"
| "superclass LargeBinary = Some Binary"
| "superclass Enum = Some String"
| "superclass MatchType = Some Boolean"
| "superclass String = None"
| "superclass Integer = None"
| "superclass Numeric = None"
| "superclass DateTime = None"
| "superclass Date = None"
| "superclass Time = None"
| "superclass Binary = None"
| "superclass Boolean = None"
| "superclass Interval = None"
| "superclass JSON = None"
| "superclass ARRAY = None"
| "superclass NullType = None"

text \<open>
  The class and its base classes, most specific first. No chain of the listed classes is
  longer than three classes (\<^verbatim>\<open>Double, Float, Numeric\<close>).
\<close>

fun ancestors :: "nat \<Rightarrow> tclass \<Rightarrow> tclass list" where
  "ancestors 0 c = [c]"
| "ancestors (Suc n) c = c # (case superclass c of None \<Rightarrow> [] | Some b \<Rightarrow> ancestors n b)"

definition mro :: "tclass \<Rightarrow> tclass list" where
  "mro c = ancestors (Suc (Suc 0)) c"

definition issubclass :: "tclass \<Rightarrow> tclass \<Rightarrow> bool" where
  "issubclass c b = (b \<in> set (mro c))"

text \<open>
  Modelled from the spec: \<^verbatim>\<open>TypeEngine._type_affinity\<close> is declared in \<^verbatim>\<open>type_api\<close>, outside
  this module. The affinity of a type is its most specific unparameterized family, so that
  all integer variants collapse to \<open>Integer\<close>: the last class of the chain of base classes.
  \<^verbatim>\<open>_AbstractInterval\<close> overrides it in this module:
  \<^verbatim>\<open>
  @util.non_memoized_property
  def _type_affinity(self):
      return Interval
  \<close>
\<close>

definition type_affinity_of :: "tclass \<Rightarrow> tclass" where
  "type_affinity_of c = (if issubclass c Interval then Interval else last (mro c))"

text \<open>The operators of \<^verbatim>\<open>sql/operators\<close> that the module names, and any other one.\<close>

datatype operator =
    operators_add | operators_sub | operators_mul | operators_truediv | operators_floordiv
  | operators_concat_op | operators_getitem
  | operators_json_getitem_op | operators_json_path_getitem_op
  | operators_other string


section \<open>Numeric and Float: result conversion\<close>

text \<open>
  The configuration of a type of the \<^verbatim>\<open>Numeric\<close> family. \<^verbatim>\<open>Numeric.__init__\<close> stores the four
  attributes; \<^verbatim>\<open>Float.__init__\<close> stores no \<^verbatim>\<open>scale\<close>, which is then the class attribute
  \<^verbatim>\<open>scale = None\<close> (a subclass with a scale of its own sets it).
\<close>

record Numeric_obj =
  precision :: "int option"
  scale :: "int option"
  decimal_return_scale :: "int option"
  asdecimal :: bool

definition Numeric_init :: "int option \<Rightarrow> int option \<Rightarrow> int option \<Rightarrow> bool \<Rightarrow> Numeric_obj" where
  "Numeric_init p s drs asd =
     \<lparr> precision = p, scale = s, decimal_return_scale = drs, asdecimal = asd \<rparr>"

definition Float_init :: "int option \<Rightarrow> bool \<Rightarrow> int option \<Rightarrow> Numeric_obj" where
  "Float_init p asd drs =
     \<lparr> precision = p, scale = None, decimal_return_scale = drs, asdecimal = asd \<rparr>"

text \<open>
  \<^verbatim>\<open>
  _default_decimal_return_scale = 10

  @property
  def _effective_decimal_return_scale(self):
      if self.decimal_return_scale is not None:
          return self.decimal_return_scale
      elif getattr(self, "scale", None) is not None:
          return self.scale
      else:
          return self._default_decimal_return_scale
  \<close>
\<close>

definition default_decimal_return_scale :: int where
  "default_decimal_return_scale = 10"

definition effective_decimal_return_scale :: "Numeric_obj \<Rightarrow> int" where
  "effective_decimal_return_scale self =
     (case decimal_return_scale self of
        Some d \<Rightarrow> d
      | None \<Rightarrow> (case scale self of
                   Some s \<Rightarrow> s
                 | None \<Rightarrow> default_decimal_return_scale))"

text \<open>
  The converters of \<^verbatim>\<open>engine/processors\<close> are outside this module; a result processor is
  represented by the converter that is installed: \<^verbatim>\<open>processors.to_float\<close>, or
  \<^verbatim>\<open>processors.to_decimal_processor_factory(decimal.Decimal, scale)\<close> with its scale.
  \<open>None\<close> is \<^verbatim>\<open>return None\<close>: no processor is installed.
  \<^verbatim>\<open>
  def result_processor(self, dialect, coltype):        # Numeric
      if self.asdecimal:
          if dialect.supports_native_decimal:
              return None
          else:
              return processors.to_decimal_processor_factory(
                  decimal.Decimal,
                  self.scale
                  if self.scale is not None
                  else self._default_decimal_return_scale,
              )
      else:
          if dialect.supports_native_decimal:
              return processors.to_float
          else:
              return None

  def result_processor(self, dialect, coltype):        # Float
      if self.asdecimal:
          return processors.to_decimal_processor_factory(
              decimal.Decimal, self._effective_decimal_return_scale
          )
      elif dialect.supports_native_decimal:
          return processors.to_float
      else:
          return None
  \<close>
\<close>

datatype processor = to_float | to_decimal_processor_factory int

definition Numeric_result_processor :: "Numeric_obj \<Rightarrow> dialect \<Rightarrow> processor option" where
  "Numeric_result_processor self d =
     (if asdecimal self then
        (if supports_native_decimal d then None
         else Some (to_decimal_processor_factory
                      (case scale self of Some s \<Rightarrow> s | None \<Rightarrow> default_decimal_return_scale)))
      else
        (if supports_native_decimal d then Some to_float else None))"

definition Float_result_processor :: "Numeric_obj \<Rightarrow> dialect \<Rightarrow> processor option" where
  "Float_result_processor self d =
     (if asdecimal self then
        Some (to_decimal_processor_factory (effective_decimal_return_scale self))
      else if supports_native_decimal d then Some to_float
      else None)"

text \<open>
  The method that an instance of class \<open>cls\<close> of the \<^verbatim>\<open>Numeric\<close> family runs: the one of
  \<^verbatim>\<open>Float\<close> for \<^verbatim>\<open>Float\<close> and its subclasses, the one of \<^verbatim>\<open>Numeric\<close> otherwise.
\<close>

definition result_processor :: "tclass \<Rightarrow> Numeric_obj \<Rightarrow> dialect \<Rightarrow> processor option" where
  "result_processor cls self d =
     (if issubclass cls Float then Float_result_processor self d
      else Numeric_result_processor self d)"


section \<open>String: literal rendering\<close>

text \<open>
  \<^verbatim>\<open>
  def literal_processor(self, dialect):
      def process(value):
          value = value.replace("'", "''")

          if dialect.identifier_preparer._double_percents:
              value = value.replace("%", "%%")

          return "'%s'" % value

      return process

  def bind_processor(self, dialect):
      return None

  def result_processor(self, dialect, coltype):
      return None
  \<close>
  \<^verbatim>\<open>replace\<close> is a method of strings: on any other value the attribute lookup fails.
\<close>

definition replace_char :: "char \<Rightarrow> string \<Rightarrow> string \<Rightarrow> string" where
  "replace_char old new s = concat (map (\<lambda>c. if c = old then new else [c]) s)"

definition quote_char :: char where
  "quote_char = CHR 0x27"

definition percent_char :: char where
  "percent_char = CHR 0x25"

definition String_literal_processor :: "dialect \<Rightarrow> pyval \<Rightarrow> error + string" where
  "String_literal_processor d v =
     (case v of
        PyStr s \<Rightarrow>
          (let s1 = replace_char quote_char [quote_char, quote_char] s;
               s2 = (if double_percents d
                     then replace_char percent_char [percent_char, percent_char] s1 else s1)
           in Inr ([quote_char] @ s2 @ [quote_char]))
      | _ \<Rightarrow> Inl (AttributeError ''replace''))"

definition String_bind_processor :: "dialect \<Rightarrow> (pyval \<Rightarrow> error + pyval) option" where
  "String_bind_processor d = None"

definition String_result_processor :: "dialect \<Rightarrow> (pyval \<Rightarrow> error + pyval) option" where
  "String_result_processor d = None"


section \<open>Enum\<close>

text \<open>
  An enumeration class of the host language: its \<^verbatim>\<open>__name__\<close> in lower case, and its
  \<^verbatim>\<open>__members__\<close>, an ordered mapping from each name to a member. A member is identified by
  its canonical name \<^verbatim>\<open>member.name\<close>; an alias is a name that maps to a member whose
  canonical name is another one. Members are plain objects (\<open>PyMember\<close>): they are equal to
  no string.
\<close>

record enum_class_obj =
  name_lower :: string
  members :: "(string \<times> string) list"

text \<open>
  The positional arguments of \<^verbatim>\<open>Enum(*enums, **kw)\<close>: string labels, or one enumeration
  class (\<^verbatim>\<open>len(enums) == 1 and hasattr(enums[0], "__members__")\<close>).
\<close>

datatype enums_arg = Labels "string list" | EnumClass enum_class_obj

text \<open>
  The keyword arguments that \<^verbatim>\<open>_enum_init\<close> pops; \<open>None\<close> is an absent key. The keywords
  that it hands on to \<^verbatim>\<open>SchemaType.__init__\<close> unread (\<^verbatim>\<open>schema\<close>, \<^verbatim>\<open>metadata\<close>,
  \<^verbatim>\<open>inherit_schema\<close>, \<^verbatim>\<open>quote\<close>, \<^verbatim>\<open>_create_events\<close>) and the sort key are left out.
\<close>

record enum_kw =
  kw_native_enum :: "bool option"
  kw_create_constraint :: "bool option"
  kw_values_callable :: "(enum_class_obj \<Rightarrow> string list) option"
  kw_length :: "int option"
  kw_omit_aliases :: "bool option"
  kw_disable_warnings :: "bool option"
  kw_validate_strings :: "bool option"
  kw_name :: "string option"
  kw_enums :: "enums_arg option"

definition no_kw :: enum_kw where
  "no_kw = \<lparr> kw_native_enum = None, kw_create_constraint = None, kw_values_callable = None,
     kw_length = None, kw_omit_aliases = None, kw_disable_warnings = None,
     kw_validate_strings = None, kw_name = None, kw_enums = None \<rparr>"

record Enum_obj =
  enums :: "string list"
  enum_class :: "enum_class_obj option"
  valid_lookup :: "pyval \<rightharpoonup> pyval"
  object_lookup :: "pyval \<rightharpoonup> pyval"
  validate_strings :: bool
  native_enum :: bool
  enum_create_constraint :: bool
  omit_aliases :: bool
  default_length :: int
  enum_length :: int
  enum_name :: "string option"

text \<open>
  \<^verbatim>\<open>
  def _parse_into_values(self, enums, kw):
      if not enums and "_enums" in kw:
          enums = kw.pop("_enums")

      if len(enums) == 1 and hasattr(enums[0], "__members__"):
          self.enum_class = enums[0]

          _members = self.enum_class.__members__

          if self._omit_aliases is True:
              # remove aliases
              members = OrderedDict(
                  (n, v) for n, v in _members.items() if v.name == n
              )
          else:
              members = _members
          if self.values_callable:
              values = self.values_callable(self.enum_class)
          else:
              values = list(members)
          objects = [members[k] for k in members]
          return values, objects
      else:
          self.enum_class = None
          return enums, enums
  \<close>
  The result is the enumeration class, the values and the objects.
\<close>

definition parse_into_values ::
  "bool \<Rightarrow> (enum_class_obj \<Rightarrow> string list) option \<Rightarrow> enums_arg \<Rightarrow> enum_kw
     \<Rightarrow> enum_class_obj option \<times> string list \<times> pyval list" where
  "parse_into_values omit callable enums0 kw =
     (let enums1 = (case (enums0, kw_enums kw) of
                      (Labels [], Some e) \<Rightarrow> e
                    | _ \<Rightarrow> enums0)
      in case enums1 of
           EnumClass c \<Rightarrow>
             (let ms = (if omit then filter (\<lambda>(n, v). v = n) (members c) else members c);
                  vals = (case callable of Some f \<Rightarrow> f c | None \<Rightarrow> map fst ms);
                  objects = map (\<lambda>(n, v). PyMember v) ms
              in (Some c, vals, objects))
         | Labels ls \<Rightarrow> (None, ls, map PyStr ls))"

text \<open>\<^verbatim>\<open>[f(x) for x in xs]\<close> where \<open>f\<close> may fail: the first failure ends the comprehension.\<close>

fun traverse :: "('a \<Rightarrow> error + 'b) \<Rightarrow> 'a list \<Rightarrow> error + 'b list" where
  "traverse f [] = Inr []"
| "traverse f (x # xs) =
     (case f x of
        Inl e \<Rightarrow> Inl e
      | Inr y \<Rightarrow> (case traverse f xs of Inl e \<Rightarrow> Inl e | Inr ys \<Rightarrow> Inr (y # ys)))"

text \<open>\<^verbatim>\<open>d[k]\<close>: the value, or a \<^verbatim>\<open>KeyError\<close>.\<close>

definition getitem :: "(pyval \<rightharpoonup> pyval) \<Rightarrow> pyval \<Rightarrow> error + pyval" where
  "getitem m k = (case m k of None \<Rightarrow> Inl (KeyError k) | Some v \<Rightarrow> Inr v)"

text \<open>
  \<^verbatim>\<open>
  def _setup_for_values(self, values, objects, kw):
      self.enums = list(values)

      self._valid_lookup = dict(zip(reversed(objects), reversed(values)))

      self._object_lookup = dict(zip(values, objects))

      self._valid_lookup.update(
          [
              (value, self._valid_lookup[self._object_lookup[value]])
              for value in values
          ]
      )
  \<close>
  \<^verbatim>\<open>dict(zip(ks, vs))\<close> and \<^verbatim>\<open>update\<close> store the pairs in order, so that a later pair with the
  same key wins: \<open>m(ks [\<mapsto>] vs)\<close>. The result is \<^verbatim>\<open>enums\<close>, \<^verbatim>\<open>_valid_lookup\<close> and
  \<^verbatim>\<open>_object_lookup\<close>.
\<close>

definition setup_for_values ::
  "string list \<Rightarrow> pyval list
     \<Rightarrow> error + (string list \<times> (pyval \<rightharpoonup> pyval) \<times> (pyval \<rightharpoonup> pyval))" where
  "setup_for_values vals objects =
     (let valid0 = Map.empty (rev objects [\<mapsto>] map PyStr (rev vals));
          object_lkp = Map.empty (map PyStr vals [\<mapsto>] objects)
      in case traverse (\<lambda>v. case getitem object_lkp (PyStr v) of
                               Inl e \<Rightarrow> Inl e
                             | Inr obj \<Rightarrow> getitem valid0 obj) vals of
           Inl e \<Rightarrow> Inl e
         | Inr dbs \<Rightarrow> Inr (vals, valid0 (map PyStr vals [\<mapsto>] dbs), object_lkp))"

text \<open>
  \<^verbatim>\<open>
  def _enum_init(self, enums, kw):
      self.native_enum = kw.pop("native_enum", True)
      self.create_constraint = kw.pop("create_constraint", False)
      self.values_callable = kw.pop("values_callable", None)
      self._sort_key_function = kw.pop("sort_key_function", NO_ARG)
      length_arg = kw.pop("length", NO_ARG)
      self._omit_aliases = kw.pop("omit_aliases", True)
      _disable_warnings = kw.pop("_disable_warnings", False)
      values, objects = self._parse_into_values(enums, kw)
      self._setup_for_values(values, objects, kw)

      self.validate_strings = kw.pop("validate_strings", False)

      if self.enums:
          self._default_length = length = max(len(x) for x in self.enums)
      else:
          self._default_length = length = 0

      if length_arg is not NO_ARG:
          if self.native_enum:
              if not _disable_warnings:
                  util.warn(...)
          else:
              if not _disable_warnings and length_arg < length:
                  raise ValueError(
                      "When provided, length must be larger or equal"
                      " than the length of the longest enum value. %s < %s"
                      % (length_arg, length)
                  )
              length = length_arg

      self._valid_lookup[None] = self._object_lookup[None] = None

      super(Enum, self).__init__(length=length)

      if self.enum_class:
          kw.setdefault("name", self.enum_class.__name__.lower())
      SchemaType.__init__(self, name=kw.pop("name", None), ...)
  \<close>
\<close>

definition get_default :: "'a option \<Rightarrow> 'a \<Rightarrow> 'a" where
  "get_default x d = (case x of None \<Rightarrow> d | Some v \<Rightarrow> v)"

definition enum_init :: "enums_arg \<Rightarrow> enum_kw \<Rightarrow> error + Enum_obj" where
  "enum_init enums0 kw =
     (let native = get_default (kw_native_enum kw) True;
          cc = get_default (kw_create_constraint kw) False;
          callable = kw_values_callable kw;
          length_arg = kw_length kw;
          omit = get_default (kw_omit_aliases kw) True;
          disable_warnings = get_default (kw_disable_warnings kw) False;
          (cls, vals, objects) = parse_into_values omit callable enums0 kw
      in case setup_for_values vals objects of
           Inl e \<Rightarrow> Inl e
         | Inr (ens, valid, object_lkp) \<Rightarrow>
             (let validate = get_default (kw_validate_strings kw) False;
                  len0 = (if ens \<noteq> [] then Max (set (map (\<lambda>x. int (length x)) ens)) else 0);
                  nm = (case cls of
                          Some c \<Rightarrow> Some (get_default (kw_name kw) (name_lower c))
                        | None \<Rightarrow> kw_name kw);
                  finish = (\<lambda>len. Inr \<lparr> enums = ens, enum_class = cls,
                      valid_lookup = valid (PyNone \<mapsto> PyNone),
                      object_lookup = object_lkp (PyNone \<mapsto> PyNone),
                      validate_strings = validate, native_enum = native,
                      enum_create_constraint = cc, omit_aliases = omit,
                      default_length = len0, enum_length = len, enum_name = nm \<rparr>)
              in case length_arg of
                   None \<Rightarrow> finish len0
                 | Some la \<Rightarrow>
                     (if native then finish len0
                      else if \<not> disable_warnings \<and> la < len0 then
                        Inl (ValueError
                          ''When provided, length must be larger or equal than the length of the longest enum value. %s < %s''
                          [PyInt la, PyInt len0])
                      else finish la)))"

text \<open>
  \<^verbatim>\<open>
  def _db_value_for_elem(self, elem):
      try:
          return self._valid_lookup[elem]
      except KeyError as err:
          if not self.validate_strings and isinstance(elem, str):
              return elem
          else:
              raise LookupError(
                  "'%s' is not among the defined enum values. "
                  "Enum name: %s. Possible values: %s"
                  % (elem, self.name, langhelpers.repr_tuple_names(self.enums))
              ) from err

  def _object_value_for_elem(self, elem):
      try:
          return self._object_lookup[elem]
      except KeyError as err:
          raise LookupError(
              "'%s' is not among the defined enum values. "
              "Enum name: %s. Possible values: %s"
              % (elem, self.name, langhelpers.repr_tuple_names(self.enums))
          ) from err
  \<close>
\<close>

definition db_value_for_elem :: "Enum_obj \<Rightarrow> pyval \<Rightarrow> error + pyval" where
  "db_value_for_elem self elem =
     (case valid_lookup self elem of
        Some v \<Rightarrow> Inr v
      | None \<Rightarrow>
          (if \<not> validate_strings self \<and> isinstance_str elem then Inr elem
           else Inl (LookupError elem (enum_name self) (enums self))))"

definition object_value_for_elem :: "Enum_obj \<Rightarrow> pyval \<Rightarrow> error + pyval" where
  "object_value_for_elem self elem =
     (case object_lookup self elem of
        Some v \<Rightarrow> Inr v
      | None \<Rightarrow> Inl (LookupError elem (enum_name self) (enums self)))"

text \<open>
  \<^verbatim>\<open>
  def literal_processor(self, dialect):
      parent_processor = super(Enum, self).literal_processor(dialect)

      def process(value):
          value = self._db_value_for_elem(value)
          if parent_processor:
              value = parent_processor(value)
          return value

      return process

  def bind_processor(self, dialect):
      parent_processor = super(Enum, self).bind_processor(dialect)

      def process(value):
          value = self._db_value_for_elem(value)
          if parent_processor:
              value = parent_processor(value)
          return value

      return process

  def result_processor(self, dialect, coltype):
      parent_processor = super(Enum, self).result_processor(dialect, coltype)

      def process(value):
          if parent_processor:
              value = parent_processor(value)

          value = self._object_value_for_elem(value)
          return value

      return process
  \<close>
  The parent is \<^verbatim>\<open>String\<close>. Its literal processor is a function, so it always runs.
\<close>

definition Enum_literal_processor :: "Enum_obj \<Rightarrow> dialect \<Rightarrow> pyval \<Rightarrow> error + string" where
  "Enum_literal_processor self d v =
     (case db_value_for_elem self v of
        Inl e \<Rightarrow> Inl e
      | Inr v' \<Rightarrow> String_literal_processor d v')"

definition Enum_bind_processor :: "Enum_obj \<Rightarrow> dialect \<Rightarrow> pyval \<Rightarrow> error + pyval" where
  "Enum_bind_processor self d v =
     (case db_value_for_elem self v of
        Inl e \<Rightarrow> Inl e
      | Inr v' \<Rightarrow> (case String_bind_processor d of None \<Rightarrow> Inr v' | Some p \<Rightarrow> p v'))"

definition Enum_result_processor :: "Enum_obj \<Rightarrow> dialect \<Rightarrow> pyval \<Rightarrow> error + pyval" where
  "Enum_result_processor self d v =
     (case (case String_result_processor d of None \<Rightarrow> Inr v | Some p \<Rightarrow> p v) of
        Inl e \<Rightarrow> Inl e
      | Inr v' \<Rightarrow> object_value_for_elem self v')"

text \<open>The enum of the examples: \<^verbatim>\<open>Enum("red", "green", "blue", validate_strings=...)\<close>.\<close>

definition colours :: "bool \<Rightarrow> error + Enum_obj" where
  "colours strict =
     enum_init (Labels [''red'', ''green'', ''blue'']) (no_kw\<lparr>kw_validate_strings := Some strict\<rparr>)"



section \<open>JSON: the bind processor\<close>

text \<open>
  \<^verbatim>\<open>NULL = util.symbol("JSON_NULL")\<close> is the sentinel of the JSON null literal; the SQL NULL
  element is an instance of \<^verbatim>\<open>elements.Null\<close>.
  \<^verbatim>\<open>
  def _make_bind_processor(self, string_process, json_serializer):
      if string_process:

          def process(value):
              if value is self.NULL:
                  value = None
              elif isinstance(value, elements.Null) or (
                  value is None and self.none_as_null
              ):
                  return None

              serialized = json_serializer(value)
              return string_process(serialized)

      else:

          def process(value):
              if value is self.NULL:
                  value = None
              elif isinstance(value, elements.Null) or (
                  value is None and self.none_as_null
              ):
                  return None

              return json_serializer(value)

      return process

  def bind_processor(self, dialect):
      string_process = self._str_impl.bind_processor(dialect)
      json_serializer = dialect._json_serializer or json.dumps

      return self._make_bind_processor(string_process, json_serializer)
  \<close>
  The first argument is \<^verbatim>\<open>self.none_as_null\<close>. The driver value \<open>PyNone\<close> is the SQL NULL.
  \<^verbatim>\<open>json.dumps\<close> belongs to the standard library and is a parameter.
\<close>

definition JSON_NULL :: pyval where
  "JSON_NULL = PySymbol ''JSON_NULL''"

definition make_bind_processor ::
  "bool \<Rightarrow> (pyval \<Rightarrow> error + pyval) option \<Rightarrow> (pyval \<Rightarrow> error + string)
     \<Rightarrow> pyval \<Rightarrow> error + pyval" where
  "make_bind_processor none_as_null string_process serializer v =
     (case string_process of
        Some sp \<Rightarrow>
          (if v = JSON_NULL then
             (case serializer PyNone of Inl e \<Rightarrow> Inl e | Inr s \<Rightarrow> sp (PyStr s))
           else if v = SqlNullElement \<or> (v = PyNone \<and> none_as_null) then Inr PyNone
           else (case serializer v of Inl e \<Rightarrow> Inl e | Inr s \<Rightarrow> sp (PyStr s)))
      | None \<Rightarrow>
          (if v = JSON_NULL then
             (case serializer PyNone of Inl e \<Rightarrow> Inl e | Inr s \<Rightarrow> Inr (PyStr s))
           else if v = SqlNullElement \<or> (v = PyNone \<and> none_as_null) then Inr PyNone
           else (case serializer v of Inl e \<Rightarrow> Inl e | Inr s \<Rightarrow> Inr (PyStr s))))"

definition JSON_bind_processor ::
  "(pyval \<Rightarrow> error + string) \<Rightarrow> bool \<Rightarrow> dialect \<Rightarrow> pyval \<Rightarrow> error + pyval" where
  "JSON_bind_processor json_dumps none_as_null d =
     make_bind_processor none_as_null (String_bind_processor d)
       (case json_serializer d of Some s \<Rightarrow> s | None \<Rightarrow> json_dumps)"

text \<open>A serializer of the three constants of JSON, for the examples.\<close>

definition constants_serializer :: "pyval \<Rightarrow> error + string" where
  "constants_serializer v =
     (if v = PyNone then Inr ''null''
      else if v = PyBool True then Inr ''true''
      else if v = PyBool False then Inr ''false''
      else Inl (TypeError ''Object is not JSON serializable'' [v]))"


section \<open>Type instances\<close>

text \<open>
  An instance of a type class, with the configuration that its constructor stores: length
  and collation of the \<^verbatim>\<open>String\<close> family, the \<^verbatim>\<open>Enum\<close> state, the \<^verbatim>\<open>Numeric\<close> configuration,
  the \<^verbatim>\<open>timezone\<close> flag of \<^verbatim>\<open>DateTime\<close> and \<^verbatim>\<open>Time\<close>, the length of the binary types,
  \<^verbatim>\<open>create_constraint\<close> and \<^verbatim>\<open>name\<close> of \<^verbatim>\<open>Boolean\<close>, \<^verbatim>\<open>native\<close>, \<^verbatim>\<open>second_precision\<close> and
  \<^verbatim>\<open>day_precision\<close> of \<^verbatim>\<open>Interval\<close>, \<^verbatim>\<open>none_as_null\<close> of \<^verbatim>\<open>JSON\<close>, and \<^verbatim>\<open>item_type\<close>,
  \<^verbatim>\<open>as_tuple\<close>, \<^verbatim>\<open>dimensions\<close> and \<^verbatim>\<open>zero_indexes\<close> of \<^verbatim>\<open>ARRAY\<close>. The class argument is the
  class of the instance within its family.
\<close>

datatype sqltype =
    String_type tclass "int option" "string option"
  | Enum_type Enum_obj
  | Integer_type tclass
  | Numeric_type tclass Numeric_obj
  | DateTime_type bool
  | Date_type
  | Time_type bool
  | Binary_type tclass "int option"
  | Boolean_type tclass bool "string option"
  | Interval_type bool "int option" "int option"
  | JSON_type bool
  | ARRAY_type sqltype bool "int option" bool
  | NullType_type

fun class_of :: "sqltype \<Rightarrow> tclass" where
  "class_of (String_type c l coll) = c"
| "class_of (Enum_type e) = Enum"
| "class_of (Integer_type c) = c"
| "class_of (Numeric_type c n) = c"
| "class_of (DateTime_type tz) = DateTime"
| "class_of Date_type = Date"
| "class_of (Time_type tz) = Time"
| "class_of (Binary_type c l) = c"
| "class_of (Boolean_type c cc nm) = c"
| "class_of (Interval_type nv sp dp) = Interval"
| "class_of (JSON_type nan) = JSON"
| "class_of (ARRAY_type item tup dims zi) = ARRAY"
| "class_of NullType_type = NullType"

definition type_affinity :: "sqltype \<Rightarrow> tclass" where
  "type_affinity t = type_affinity_of (class_of t)"

text \<open>
  The instance that calling a class without arguments constructs, from the defaults of the
  constructors of the module: \<^verbatim>\<open>String(length=None, collation=None)\<close>,
  \<^verbatim>\<open>Numeric(precision=None, scale=None, decimal_return_scale=None, asdecimal=True)\<close>,
  \<^verbatim>\<open>Float(precision=None, asdecimal=False, decimal_return_scale=None)\<close>,
  \<^verbatim>\<open>DateTime(timezone=False)\<close>, \<^verbatim>\<open>Time(timezone=False)\<close>, \<^verbatim>\<open>_Binary(length=None)\<close>,
  \<^verbatim>\<open>Boolean(create_constraint=False, name=None)\<close>,
  \<^verbatim>\<open>Interval(native=True, second_precision=None, day_precision=None)\<close>,
  \<^verbatim>\<open>JSON(none_as_null=False)\<close>, \<^verbatim>\<open>Enum()\<close>. \<^verbatim>\<open>ARRAY\<close> has a required argument.
\<close>

definition default_instance :: "tclass \<Rightarrow> error + sqltype" where
  "default_instance c =
     (if c = Enum then
        (case enum_init (Labels []) no_kw of Inl e \<Rightarrow> Inl e | Inr e \<Rightarrow> Inr (Enum_type e))
      else if issubclass c String then Inr (String_type c None None)
      else if issubclass c Integer then Inr (Integer_type c)
      else if issubclass c Float then Inr (Numeric_type c (Float_init None False None))
      else if issubclass c Numeric then Inr (Numeric_type c (Numeric_init None None None True))
      else if c = DateTime then Inr (DateTime_type False)
      else if c = Date then Inr Date_type
      else if c = Time then Inr (Time_type False)
      else if issubclass c Binary then Inr (Binary_type c None)
      else if issubclass c Boolean then Inr (Boolean_type c False None)
      else if c = Interval then Inr (Interval_type True None None)
      else if c = JSON then Inr (JSON_type False)
      else if c = ARRAY then
        Inl (TypeError ''__init__() missing 1 required positional argument: item_type'' [])
      else Inr NullType_type)"

text \<open>
  What \<^verbatim>\<open>dict.get(othertype, self.type)\<close> returns from an adaptation table: a class of the
  table, or the instance \<^verbatim>\<open>self.type\<close> that is the default.

  Modelled from the spec: \<^verbatim>\<open>to_instance\<close> is declared in \<^verbatim>\<open>type_api\<close>, outside this module.
  It instantiates the looked-up generic type family with default configuration; an
  instance is a type already and is returned as it is (the resolution defaults to the left
  operand's own type).
\<close>

datatype lookup = LClass tclass | LInstance sqltype

fun to_instance :: "lookup \<Rightarrow> error + sqltype" where
  "to_instance (LClass c) = default_instance c"
| "to_instance (LInstance t) = Inr t"


section \<open>Expression adaptation\<close>

text \<open>
  The tables \<^verbatim>\<open>_expression_adaptations\<close> of \<^verbatim>\<open>Integer\<close>, \<^verbatim>\<open>Numeric\<close>, \<^verbatim>\<open>DateTime\<close>, \<^verbatim>\<open>Date\<close>,
  \<^verbatim>\<open>Time\<close> and \<^verbatim>\<open>_AbstractInterval\<close>, for an instance of class \<open>c\<close> (\<^verbatim>\<open>self.__class__\<close>).
  A dictionary literal is the list of its items; the keys of each are distinct. The
  property of the mixin itself raises \<^verbatim>\<open>NotImplementedError\<close>: \<open>None\<close>.
  \<^verbatim>\<open>
  # Integer
  return {
      operators.add: {Date: Date, Integer: self.__class__, Numeric: Numeric},
      operators.mul: {Interval: Interval, Integer: self.__class__, Numeric: Numeric},
      operators.truediv: {Integer: Numeric, Numeric: Numeric},
      operators.floordiv: {Integer: self.__class__, Numeric: Numeric},
      operators.sub: {Integer: self.__class__, Numeric: Numeric},
  }
  # Numeric
  return {
      operators.mul: {Interval: Interval, Numeric: self.__class__, Integer: self.__class__},
      operators.truediv: {Numeric: self.__class__, Integer: self.__class__},
      operators.add: {Numeric: self.__class__, Integer: self.__class__},
      operators.sub: {Numeric: self.__class__, Integer: self.__class__},
  }
  # DateTime
  return {
      operators.add: {Interval: self.__class__},
      operators.sub: {Interval: self.__class__, DateTime: Interval},
  }
  # Date
  return {
      operators.add: {Integer: self.__class__, Interval: DateTime, Time: DateTime},
      operators.sub: {Integer: self.__class__, Date: Integer, Interval: DateTime,
                      DateTime: Interval},
  }
  # Time
  return {
      operators.add: {Date: DateTime, Interval: self.__class__},
      operators.sub: {Time: Interval, Interval: self.__class__},
  }
  # _AbstractInterval
  return {
      operators.add: {Date: DateTime, Interval: self.__class__, DateTime: DateTime,
                      Time: Time},
      operators.sub: {Interval: self.__class__},
      operators.mul: {Numeric: self.__class__},
      operators.truediv: {Numeric: self.__class__},
  }
  \<close>
\<close>

definition expression_adaptations ::
  "tclass \<Rightarrow> (operator \<times> (tclass \<times> tclass) list) list option" where
  "expression_adaptations c =
     (if issubclass c Integer then Some
        [(operators_add, [(Date, Date), (Integer, c), (Numeric, Numeric)]),
         (operators_mul, [(Interval, Interval), (Integer, c), (Numeric, Numeric)]),
         (operators_truediv, [(Integer, Numeric), (Numeric, Numeric)]),
         (operators_floordiv, [(Integer, c), (Numeric, Numeric)]),
         (operators_sub, [(Integer, c), (Numeric, Numeric)])]
      else if issubclass c Numeric then Some
        [(operators_mul, [(Interval, Interval), (Numeric, c), (Integer, c)]),
         (operators_truediv, [(Numeric, c), (Integer, c)]),
         (operators_add, [(Numeric, c), (Integer, c)]),
         (operators_sub, [(Numeric, c), (Integer, c)])]
      else if issubclass c DateTime then Some
        [(operators_add, [(Interval, c)]),
         (operators_sub, [(Interval, c), (DateTime, Interval)])]
      else if issubclass c Date then Some
        [(operators_add, [(Integer, c), (Interval, DateTime), (Time, DateTime)]),
         (operators_sub, [(Integer, c), (Date, Integer), (Interval, DateTime),
                          (DateTime, Interval)])]
      else if issubclass c Time then Some
        [(operators_add, [(Date, DateTime), (Interval, c)]),
         (operators_sub, [(Time, Interval), (Interval, c)])]
      else if issubclass c Interval then Some
        [(operators_add, [(Date, DateTime), (Interval, c), (DateTime, DateTime), (Time, Time)]),
         (operators_sub, [(Interval, c)]),
         (operators_mul, [(Numeric, c)]),
         (operators_truediv, [(Numeric, c)])]
      else None)"

text \<open>
  The entry that the table of class \<open>c\<close> holds for an operator and an affinity:
  \<^verbatim>\<open>table.get(op, self._blank_dict).get(othertype)\<close>.
\<close>

definition table_entry ::
  "(operator \<times> (tclass \<times> tclass) list) list \<Rightarrow> operator \<Rightarrow> tclass \<Rightarrow> tclass option" where
  "table_entry tab op othertype =
     map_of (case map_of tab op of None \<Rightarrow> [] | Some d \<Rightarrow> d) othertype"

text \<open>
  \<^verbatim>\<open>
  def _adapt_expression(self, op, other_comparator):        # HasExpressionLookup.Comparator
      othertype = other_comparator.type._type_affinity
      lookup = self.type._expression_adaptations.get(
          op, self._blank_dict
      ).get(othertype, self.type)
      if lookup is othertype:
          return (op, other_comparator.type)
      elif lookup is self.type._type_affinity:
          return (op, self.type)
      else:
          return (op, to_instance(lookup))
  \<close>
  A comparator is given by the type of its expression: \<open>self_type\<close> is \<^verbatim>\<open>self.type\<close> and
  \<open>other_type\<close> is \<^verbatim>\<open>other_comparator.type\<close>.
\<close>

definition HasExpressionLookup_adapt_expression ::
  "sqltype \<Rightarrow> operator \<Rightarrow> sqltype \<Rightarrow> error + (operator \<times> sqltype)" where
  "HasExpressionLookup_adapt_expression self_type op other_type =
     (let othertype = type_affinity other_type in
      case expression_adaptations (class_of self_type) of
        None \<Rightarrow> Inl NotImplementedError
      | Some tab \<Rightarrow>
          (let lookup = (case table_entry tab op othertype of
                           None \<Rightarrow> LInstance self_type
                         | Some c \<Rightarrow> LClass c)
           in if lookup = LClass othertype then Inr (op, other_type)
              else if lookup = LClass (type_affinity self_type) then Inr (op, self_type)
              else (case to_instance lookup of
                      Inl e \<Rightarrow> Inl e
                    | Inr t \<Rightarrow> Inr (op, t))))"

text \<open>
  The comparator classes of the module, and \<^verbatim>\<open>TypeEngine.Comparator\<close>, their common base.
  \<open>comparator_mro\<close> lists a comparator class and the comparator classes that it inherits
  from, in the order of method resolution:
  \<^verbatim>\<open>
  class Comparator(TypeEngine.Comparator[_CT])                                # HasExpressionLookup
  class Comparator(TypeEngine.Comparator[_T])                                 # Concatenable
  class Comparator(TypeEngine.Comparator[_T])                                 # Indexable
  class Comparator(String.Comparator[str])                                    # Enum
  class Comparator(TypeDecorator.Comparator[_CT], _AbstractInterval.Comparator[_CT])   # Interval
  class Comparator(Indexable.Comparator[_T], Concatenable.Comparator[_T])     # JSON, ARRAY
  class Comparator(TypeEngine.Comparator[_T])                                 # NullType
  \<close>
  \<^verbatim>\<open>String\<close> declares no comparator: as \<^verbatim>\<open>String(Concatenable, TypeEngine)\<close> it has the one
  of \<^verbatim>\<open>Concatenable\<close>. The comparator of \<^verbatim>\<open>TypeDecorator\<close> does not define
  \<^verbatim>\<open>_adapt_expression\<close> and is left out of the list of \<^verbatim>\<open>Interval\<close>.
\<close>

datatype comparator =
    TypeEngine_Comparator
  | HasExpressionLookup_Comparator
  | Concatenable_Comparator
  | Indexable_Comparator
  | Enum_Comparator
  | Interval_Comparator
  | JSON_Comparator
  | ARRAY_Comparator
  | NullType_Comparator

fun comparator_mro :: "comparator \<Rightarrow> comparator list" where
  "comparator_mro TypeEngine_Comparator = [TypeEngine_Comparator]"
| "comparator_mro HasExpressionLookup_Comparator =
     [HasExpressionLookup_Comparator, TypeEngine_Comparator]"
| "comparator_mro Concatenable_Comparator = [Concatenable_Comparator, TypeEngine_Comparator]"
| "comparator_mro Indexable_Comparator = [Indexable_Comparator, TypeEngine_Comparator]"
| "comparator_mro Enum_Comparator =
     [Enum_Comparator, Concatenable_Comparator, TypeEngine_Comparator]"
| "comparator_mro Interval_Comparator =
     [Interval_Comparator, HasExpressionLookup_Comparator, TypeEngine_Comparator]"
| "comparator_mro JSON_Comparator =
     [JSON_Comparator, Indexable_Comparator, Concatenable_Comparator, TypeEngine_Comparator]"
| "comparator_mro ARRAY_Comparator =
     [ARRAY_Comparator, Indexable_Comparator, Concatenable_Comparator, TypeEngine_Comparator]"
| "comparator_mro NullType_Comparator = [NullType_Comparator, TypeEngine_Comparator]"

definition isinstance_comparator :: "comparator \<Rightarrow> comparator \<Rightarrow> bool" where
  "isinstance_comparator c k = (k \<in> set (comparator_mro c))"

text \<open>\<^verbatim>\<open>comparator_factory\<close>: the comparator class of the expressions of a type class.\<close>

definition comparator_factory :: "tclass \<Rightarrow> comparator" where
  "comparator_factory c =
     (if c = Enum then Enum_Comparator
      else if issubclass c String then Concatenable_Comparator
      else if c = Interval then Interval_Comparator
      else if issubclass c Integer \<or> issubclass c Numeric \<or> c = DateTime \<or> c = Date \<or> c = Time
        then HasExpressionLookup_Comparator
      else if c = JSON then JSON_Comparator
      else if c = ARRAY then ARRAY_Comparator
      else if c = NullType then NullType_Comparator
      else TypeEngine_Comparator)"

text \<open>
  \<^verbatim>\<open>
  def _adapt_expression(self, op, other_comparator):        # Concatenable.Comparator
      if op is operators.add and isinstance(
          other_comparator,
          (Concatenable.Comparator, NullType.Comparator),
      ):
          return operators.concat_op, self.expr.type
      else:
          return super(Concatenable.Comparator, self)._adapt_expression(
              op, other_comparator
          )
  \<close>
  \<open>super_adapt\<close> is the method that \<^verbatim>\<open>super(Concatenable.Comparator, self)\<close> resolves to.
\<close>

definition Concatenable_adapt_expression ::
  "(sqltype \<Rightarrow> operator \<Rightarrow> sqltype \<Rightarrow> error + (operator \<times> sqltype))
     \<Rightarrow> sqltype \<Rightarrow> operator \<Rightarrow> sqltype \<Rightarrow> error + (operator \<times> sqltype)" where
  "Concatenable_adapt_expression super_adapt self_type op other_type =
     (let other_comparator = comparator_factory (class_of other_type) in
      if op = operators_add
         \<and> (isinstance_comparator other_comparator Concatenable_Comparator
            \<or> isinstance_comparator other_comparator NullType_Comparator)
      then Inr (operators_concat_op, self_type)
      else super_adapt self_type op other_type)"

text \<open>
  \<^verbatim>\<open>
  def _adapt_expression(self, op, other_comparator):        # Enum.Comparator
      op, sqltype = super(Enum.Comparator, self)._adapt_expression(
          op, other_comparator
      )
      if op is operators.concat_op:
          sqltype = String(self.type.length)
      return op, sqltype
  \<close>
  \<^verbatim>\<open>self.type.length\<close> is the length that \<^verbatim>\<open>_enum_init\<close> handed to \<^verbatim>\<open>String.__init__\<close>.
\<close>

fun type_length :: "sqltype \<Rightarrow> error + int option" where
  "type_length (String_type c l coll) = Inr l"
| "type_length (Enum_type e) = Inr (Some (enum_length e))"
| "type_length (Binary_type c l) = Inr l"
| "type_length t = Inl (AttributeError ''length'')"

definition Enum_adapt_expression ::
  "(sqltype \<Rightarrow> operator \<Rightarrow> sqltype \<Rightarrow> error + (operator \<times> sqltype))
     \<Rightarrow> sqltype \<Rightarrow> operator \<Rightarrow> sqltype \<Rightarrow> error + (operator \<times> sqltype)" where
  "Enum_adapt_expression super_adapt self_type op other_type =
     (case Concatenable_adapt_expression super_adapt self_type op other_type of
        Inl e \<Rightarrow> Inl e
      | Inr (op', t) \<Rightarrow>
          (if op' = operators_concat_op then
             (case type_length self_type of
                Inl e \<Rightarrow> Inl e
              | Inr l \<Rightarrow> Inr (op', String_type String l None))
           else Inr (op', t)))"

text \<open>
  \<^verbatim>\<open>TypeEngine.Comparator._adapt_expression\<close> is declared in \<^verbatim>\<open>type_api\<close>, outside this
  module: it is the parameter \<open>base_adapt\<close> of the dispatch below, the method that every
  comparator without an adaptation of its own inherits.
  Modelled from the spec: with no adaptation table the result defaults to the operator
  and the left operand's own type; \<open>TypeEngine_adapt_expression\<close> is used in the examples.
\<close>

definition TypeEngine_adapt_expression :: "sqltype \<Rightarrow> operator \<Rightarrow> sqltype \<Rightarrow> error + (operator \<times> sqltype)" where
  "TypeEngine_adapt_expression self_type op other_type = Inr (op, self_type)"

text \<open>
  \<^verbatim>\<open>
  def _adapt_expression(self, op, other_comparator):        # NullType.Comparator
      if isinstance(
          other_comparator, NullType.Comparator
      ) or not operators.is_commutative(op):
          return op, self.expr.type
      else:
          return other_comparator._adapt_expression(op, self)
  \<close>
  The method that the comparator of a type runs. That of \<^verbatim>\<open>NullType\<close> hands over to the
  comparator of the other side, which is no \<^verbatim>\<open>NullType\<close> then; \<^verbatim>\<open>operators.is_commutative\<close>
  is outside this module and a parameter.
\<close>

definition typed_adapt_expression ::
  "(sqltype \<Rightarrow> operator \<Rightarrow> sqltype \<Rightarrow> error + (operator \<times> sqltype))
     \<Rightarrow> sqltype \<Rightarrow> operator \<Rightarrow> sqltype \<Rightarrow> error + (operator \<times> sqltype)" where
  "typed_adapt_expression base_adapt self_type op other_type =
     (case comparator_factory (class_of self_type) of
        Enum_Comparator \<Rightarrow> Enum_adapt_expression base_adapt self_type op other_type
      | Concatenable_Comparator \<Rightarrow> Concatenable_adapt_expression base_adapt self_type op other_type
      | JSON_Comparator \<Rightarrow> Concatenable_adapt_expression base_adapt self_type op other_type
      | ARRAY_Comparator \<Rightarrow> Concatenable_adapt_expression base_adapt self_type op other_type
      | HasExpressionLookup_Comparator \<Rightarrow>
          HasExpressionLookup_adapt_expression self_type op other_type
      | Interval_Comparator \<Rightarrow> HasExpressionLookup_adapt_expression self_type op other_type
      | _ \<Rightarrow> base_adapt self_type op other_type)"

definition adapt_expression ::
  "(sqltype \<Rightarrow> operator \<Rightarrow> sqltype \<Rightarrow> error + (operator \<times> sqltype)) \<Rightarrow> (operator \<Rightarrow> bool)
     \<Rightarrow> sqltype \<Rightarrow> operator \<Rightarrow> sqltype \<Rightarrow> error + (operator \<times> sqltype)" where
  "adapt_expression base_adapt is_commutative self_type op other_type =
     (if comparator_factory (class_of self_type) = NullType_Comparator then
        (if isinstance_comparator (comparator_factory (class_of other_type)) NullType_Comparator
            \<or> \<not> is_commutative op
         then Inr (op, self_type)
         else typed_adapt_expression base_adapt other_type op self_type)
      else typed_adapt_expression base_adapt self_type op other_type)"


section \<open>ARRAY and JSON: indexing\<close>

text \<open>
  \<^verbatim>\<open>
  def __init__(self, item_type, as_tuple=False, dimensions=None, zero_indexes=False):
      if isinstance(item_type, ARRAY):
          raise ValueError(
              "Do not nest ARRAY types; ARRAY(basetype) "
              "handles multi-dimensional arrays of basetype"
          )
      if isinstance(item_type, type):
          item_type = item_type()
      self.item_type = item_type
      self.as_tuple = as_tuple
      self.dimensions = dimensions
      self.zero_indexes = zero_indexes
  \<close>
  The item type is given as a class (\<open>Inl\<close>) or as an instance (\<open>Inr\<close>).
\<close>

definition ARRAY_init ::
  "tclass + sqltype \<Rightarrow> bool \<Rightarrow> int option \<Rightarrow> bool \<Rightarrow> error + sqltype" where
  "ARRAY_init item_type as_tuple dimensions zero_indexes =
     (case item_type of
        Inr t \<Rightarrow>
          (if class_of t = ARRAY then
             Inl (ValueError
               ''Do not nest ARRAY types; ARRAY(basetype) handles multi-dimensional arrays of basetype'' [])
           else Inr (ARRAY_type t as_tuple dimensions zero_indexes))
      | Inl c \<Rightarrow>
          (case default_instance c of
             Inl e \<Rightarrow> Inl e
           | Inr t \<Rightarrow> Inr (ARRAY_type t as_tuple dimensions zero_indexes)))"

text \<open>
  An index is an integer, a string, a sequence that is not a string (a list or a tuple of
  path elements), or a \<^verbatim>\<open>slice(start, stop, step)\<close>, each part of which may be \<^verbatim>\<open>None\<close>.

  The adjusted right expression of an \<^verbatim>\<open>ARRAY\<close> is the integer, the index object passed on
  as it is, or the element \<^verbatim>\<open>Slice(start, stop, step, _name=self.expr.key)\<close>.

  Modelled from the spec: \<^verbatim>\<open>coercions.expect\<close> is declared in \<^verbatim>\<open>sql/coercions\<close>, outside this
  module. The adjusted right expression of a \<^verbatim>\<open>JSON\<close> is the index coerced to a bound
  parameter of the placeholder type given as \<^verbatim>\<open>bindparam_type\<close>, which carries the
  marshaling of the index: the index together with that placeholder type.
\<close>

datatype index =
    IntIndex int
  | StrIndex string
  | PathIndex "pyval list"
  | SliceIndex "int option" "int option" "int option"

datatype json_index_type = JSONIntIndexType | JSONStrIndexType | JSONPathType

datatype right_expr =
    IndexValue int
  | IndexObject index
  | Slice "int option" "int option" "int option" "string option"
  | BindParameter index json_index_type

text \<open>
  Modelled from the spec: \<^verbatim>\<open>TypeEngine.adapt\<close> is declared in \<^verbatim>\<open>type_api\<close>, outside this module.
  \<^verbatim>\<open>arr_type.adapt(arr_type.__class__, dimensions=n)\<close> is the array type of the same class
  and configuration with the dimensionality \<open>n\<close>: indexing with an integer reduces
  dimensionality by one.
\<close>

fun adapt_dimensions :: "sqltype \<Rightarrow> int \<Rightarrow> sqltype" where
  "adapt_dimensions (ARRAY_type item tup dims zi) n = ARRAY_type item tup (Some n) zi"
| "adapt_dimensions t n = t"

text \<open>
  \<^verbatim>\<open>
  def _setup_getitem(self, index):

      arr_type = cast(ARRAY, self.type)

      if isinstance(index, slice):
          return_type = arr_type
          if arr_type.zero_indexes:
              index = slice(index.start + 1, index.stop + 1, index.step)
          slice_ = Slice(
              index.start, index.stop, index.step, _name=self.expr.key
          )
          return operators.getitem, slice_, return_type
      else:
          if arr_type.zero_indexes:
              index += 1
          if arr_type.dimensions is None or arr_type.dimensions == 1:
              return_type = arr_type.item_type
          else:
              adapt_kw = {"dimensions": arr_type.dimensions - 1}
              return_type = arr_type.adapt(
                  arr_type.__class__, **adapt_kw
              )

          return operators.getitem, index, return_type
  \<close>
  \<^verbatim>\<open>index.start + 1\<close> and \<^verbatim>\<open>index.stop + 1\<close> raise a TypeError on \<^verbatim>\<open>None\<close>, and so does
  \<^verbatim>\<open>index += 1\<close> on a string and on a list or a tuple.

  The comparator of \<^verbatim>\<open>JSON\<close>:
  \<^verbatim>\<open>
  def _setup_getitem(self, index):
      if not isinstance(index, str) and isinstance(
          index, collections_abc.Sequence
      ):
          index = coercions.expect(
              roles.BinaryElementRole,
              index,
              expr=self.expr,
              operator=operators.json_path_getitem_op,
              bindparam_type=JSON.JSONPathType,
          )

          operator = operators.json_path_getitem_op
      else:
          index = coercions.expect(
              roles.BinaryElementRole,
              index,
              expr=self.expr,
              operator=operators.json_getitem_op,
              bindparam_type=JSON.JSONIntIndexType
              if isinstance(index, int)
              else JSON.JSONStrIndexType,
          )
          operator = operators.json_getitem_op

      return operator, index, self.type
  \<close>
  The base of both comparators, \<^verbatim>\<open>Indexable.Comparator\<close>:
  \<^verbatim>\<open>
  def _setup_getitem(self, index):
      raise NotImplementedError()
  \<close>
  The comparator is given by the type \<^verbatim>\<open>self.type\<close> and the key \<^verbatim>\<open>self.expr.key\<close> of its
  expression. Only the comparators of indexable types define the method; the types of the
  module that are indexable are \<^verbatim>\<open>ARRAY\<close> and \<^verbatim>\<open>JSON\<close>, and for any other type the function
  gives the failure of the base method.
\<close>

definition is_sequence_index :: "index \<Rightarrow> bool" where
  "is_sequence_index idx = (case idx of PathIndex p \<Rightarrow> True | _ \<Rightarrow> False)"

definition isinstance_int_index :: "index \<Rightarrow> bool" where
  "isinstance_int_index idx = (case idx of IntIndex i \<Rightarrow> True | _ \<Rightarrow> False)"

definition py_add_one :: "int option \<Rightarrow> error + int option" where
  "py_add_one x =
     (case x of
        None \<Rightarrow> Inl (TypeError ''unsupported operand type(s) for +: NoneType and int'' [PyNone, PyInt 1])
      | Some i \<Rightarrow> Inr (Some (i + 1)))"

fun setup_getitem ::
  "sqltype \<Rightarrow> string option \<Rightarrow> index \<Rightarrow> error + (operator \<times> right_expr \<times> sqltype)" where
  "setup_getitem (ARRAY_type item tup dims zi) key (SliceIndex start stop step) =
     (if zi then
        (case py_add_one start of
           Inl e \<Rightarrow> Inl e
         | Inr start' \<Rightarrow>
             (case py_add_one stop of
                Inl e \<Rightarrow> Inl e
              | Inr stop' \<Rightarrow>
                  Inr (operators_getitem, Slice start' stop' step key,
                       ARRAY_type item tup dims zi)))
      else Inr (operators_getitem, Slice start stop step key, ARRAY_type item tup dims zi))"
| "setup_getitem (ARRAY_type item tup dims zi) key (IntIndex i) =
     (let i' = (if zi then i + 1 else i) in
      case dims of
        None \<Rightarrow> Inr (operators_getitem, IndexValue i', item)
      | Some n \<Rightarrow>
          (if n = 1 then Inr (operators_getitem, IndexValue i', item)
           else Inr (operators_getitem, IndexValue i',
                     adapt_dimensions (ARRAY_type item tup dims zi) (n - 1))))"
| "setup_getitem (ARRAY_type item tup dims zi) key idx =
     (if zi then
        Inl (TypeError ''unsupported operand type(s) for +='' [PyInt 1])
      else
        (case dims of
           None \<Rightarrow> Inr (operators_getitem, IndexObject idx, item)
         | Some n \<Rightarrow>
             (if n = 1 then Inr (operators_getitem, IndexObject idx, item)
              else Inr (operators_getitem, IndexObject idx,
                        adapt_dimensions (ARRAY_type item tup dims zi) (n - 1)))))"
| "setup_getitem (JSON_type none_as_null) key idx =
     (if is_sequence_index idx then
        Inr (operators_json_path_getitem_op, BindParameter idx JSONPathType,
             JSON_type none_as_null)
      else
        Inr (operators_json_getitem_op,
             BindParameter idx
               (if isinstance_int_index idx then JSONIntIndexType else JSONStrIndexType),
             JSON_type none_as_null))"
| "setup_getitem t key idx = Inl NotImplementedError"

text \<open>
  \<^verbatim>\<open>
  def __getitem__(self, index):
      (
          adjusted_op,
          adjusted_right_expr,
          result_type,
      ) = self._setup_getitem(index)
      return self.operate(
          adjusted_op, adjusted_right_expr, result_type=result_type
      )
  \<close>
  The type of the expression \<^verbatim>\<open>expr[index]\<close> is the result type of \<open>setup_getitem\<close>.
\<close>

definition getitem_type :: "sqltype \<Rightarrow> string option \<Rightarrow> index \<Rightarrow> error + sqltype" where
  "getitem_type t key idx =
     (case setup_getitem t key idx of
        Inl e \<Rightarrow> Inl e
      | Inr (op, right, result_type) \<Rightarrow> Inr result_type)"


section \<open>Schema-bound types: the active implementation\<close>

text \<open>
  \<^verbatim>\<open>_is_impl_for_variant\<close> compares type objects by identity (\<^verbatim>\<open>typ is self\<close>). A type object
  is referred to by its object number; of an \<^verbatim>\<open>ARRAY\<close> object the reference holds the object
  number of the array and that of its \<^verbatim>\<open>item_type\<close>.
\<close>

type_synonym oid = nat

datatype type_ref = TypeRef oid | ArrayRef oid oid

text \<open>
  A column: its key, its type \<^verbatim>\<open>column.type\<close>, and the variant mapping
  \<^verbatim>\<open>column.type._variant_mapping\<close> of that type, from backend names to types, as the list of
  its items.
  \<^verbatim>\<open>
  def _variant_mapping_for_set_table(self, column):
      if column.type._variant_mapping:
          variant_mapping = dict(column.type._variant_mapping)
          variant_mapping["_default"] = column.type
      else:
          variant_mapping = None
      return variant_mapping
  \<close>
\<close>

record column_obj =
  column_key :: string
  column_type :: type_ref
  type_variant_mapping :: "(string \<times> type_ref) list"

definition variant_mapping_for_set_table :: "column_obj \<Rightarrow> (string \<times> type_ref) list option" where
  "variant_mapping_for_set_table column =
     (if type_variant_mapping column \<noteq> [] then
        Some (AList.update ''_default'' (column_type column) (type_variant_mapping column))
      else None)"

text \<open>
  \<^verbatim>\<open>
  def _is_impl_for_variant(self, dialect, kw):
      variant_mapping = kw.pop("variant_mapping", None)

      if not variant_mapping:
          return True

      def _we_are_the_impl(typ):
          return (
              typ is self or isinstance(typ, ARRAY) and typ.item_type is self
          )

      if dialect.name in variant_mapping and _we_are_the_impl(
          variant_mapping[dialect.name]
      ):
          return True
      elif dialect.name not in variant_mapping:
          return _we_are_the_impl(variant_mapping["_default"])
  \<close>
  \<open>self\<close> is the object number of the schema type. The last case returns nothing, that is
  \<^verbatim>\<open>None\<close>; the callers test the truth value of the result.
\<close>

fun we_are_the_impl :: "oid \<Rightarrow> type_ref \<Rightarrow> bool" where
  "we_are_the_impl self (TypeRef i) = (i = self)"
| "we_are_the_impl self (ArrayRef a item) = (a = self \<or> item = self)"

definition is_impl_for_variant ::
  "oid \<Rightarrow> dialect \<Rightarrow> (string \<times> type_ref) list option \<Rightarrow> error + pyval" where
  "is_impl_for_variant self d kw_variant_mapping =
     (case kw_variant_mapping of
        None \<Rightarrow> Inr (PyBool True)
      | Some vm \<Rightarrow>
          (if vm = [] then Inr (PyBool True)
           else (case map_of vm (name d) of
                   Some t \<Rightarrow> (if we_are_the_impl self t then Inr (PyBool True) else Inr PyNone)
                 | None \<Rightarrow>
                     (case map_of vm ''_default'' of
                        None \<Rightarrow> Inl (KeyError (PyStr ''_default''))
                      | Some t \<Rightarrow> Inr (PyBool (we_are_the_impl self t))))))"


section \<open>Boolean: the CHECK constraint\<close>

text \<open>
  A \<^verbatim>\<open>Boolean\<close> object with its identity, and the constraint that it requests.
  \<^verbatim>\<open>
  def _should_create_constraint(self, compiler, **kw):
      if not self._is_impl_for_variant(compiler.dialect, kw):
          return False
      return (
          not compiler.dialect.supports_native_boolean
          and compiler.dialect.non_native_boolean_check_constraint
      )

  def _set_table(self, column, table):
      schema = util.preloaded.sql_schema
      if not self.create_constraint:
          return

      variant_mapping = self._variant_mapping_for_set_table(column)

      e = schema.CheckConstraint(
          type_coerce(column, self).in_([0, 1]),
          name=_NONE_NAME if self.name is None else self.name,
          _create_rule=util.portable_instancemethod(
              self._should_create_constraint,
              {"variant_mapping": variant_mapping},
          ),
          _type_bound=True,
      )
      assert e.table is table
  \<close>
  The compiler is given by its dialect.

  Modelled from the spec: \<^verbatim>\<open>CheckConstraint\<close> and the tables are declared in \<^verbatim>\<open>sql/schema\<close>,
  outside this module. The constraint collaborator accepts the predicate expression, the
  name, the conditional create predicate and the type-bound flag, and attaches itself to
  the table; the DDL of a table emits a constraint when its conditional create predicate
  holds. The predicate expression \<^verbatim>\<open>column IN (0, 1)\<close> is held as the key of the column and
  the list of the values; the name \<open>None\<close> is \<^verbatim>\<open>_NONE_NAME\<close>.
\<close>

record Boolean_obj =
  boolean_id :: oid
  create_constraint :: bool
  boolean_name :: "string option"

record CheckConstraint =
  constraint_column :: string
  constraint_in :: "pyval list"
  constraint_name :: "string option"
  create_rule :: "dialect \<Rightarrow> error + bool"
  type_bound :: bool

record table_obj =
  table_constraints :: "CheckConstraint list"

definition should_create_constraint ::
  "Boolean_obj \<Rightarrow> dialect \<Rightarrow> (string \<times> type_ref) list option \<Rightarrow> error + bool" where
  "should_create_constraint self d kw_variant_mapping =
     (case is_impl_for_variant (boolean_id self) d kw_variant_mapping of
        Inl e \<Rightarrow> Inl e
      | Inr r \<Rightarrow>
          (if \<not> py_truthy r then Inr False
           else Inr (\<not> supports_native_boolean d \<and> non_native_boolean_check_constraint d)))"

definition Boolean_set_table :: "Boolean_obj \<Rightarrow> column_obj \<Rightarrow> table_obj \<Rightarrow> table_obj" where
  "Boolean_set_table self column table =
     (if \<not> create_constraint self then table
      else
        (let variant_mapping = variant_mapping_for_set_table column;
             e = \<lparr> constraint_column = column_key column,
                   constraint_in = [PyInt 0, PyInt 1],
                   constraint_name = boolean_name self,
                   create_rule = (\<lambda>d. should_create_constraint self d variant_mapping),
                   type_bound = True \<rparr>
         in table\<lparr> table_constraints := table_constraints table @ [e] \<rparr>))"

definition emitted_checks :: "dialect \<Rightarrow> table_obj \<Rightarrow> (string \<times> pyval list) list" where
  "emitted_checks d table =
     map (\<lambda>c. (constraint_column c, constraint_in c))
       (filter (\<lambda>c. create_rule c d = Inr True) (table_constraints table))"

text \<open>
  Modelled from the spec: \<^verbatim>\<open>Column\<close> is declared in \<^verbatim>\<open>sql/schema\<close>, outside this module. On
  attachment to a column, the type registers a callback to fire when that column is later
  attached to a table. The module says which types the column asks to do so:
  \<^verbatim>\<open>
  def _set_parent(self, column, **kw):
      # set parent hook is when this type is associated with a column.
      # Column calls it for all SchemaEventTarget instances, either the
      # base type and/or variants in _variant_mapping.

      # we want to register a second hook to trigger when that column is
      # associated with a table.  in that event, we and all of our variants
      # may want to set up some state on the table such as a CheckConstraint
      # that will conditionally render at DDL render time.
      ...
      column._on_table_attach(util.portable_instancemethod(self._set_table))
  \<close>
  The column calls the hook of its type and of every value of the variant mapping of that
  type, one call for each backend name; every call registers one callback \<^verbatim>\<open>_set_table\<close>,
  and the callbacks run, in the order of their registration, when the column is attached to
  a table. An \<^verbatim>\<open>ARRAY\<close> forwards the call to its item type:
  \<^verbatim>\<open>
  def _set_parent_with_dispatch(self, parent):
      """Support SchemaEventTarget"""

      super(ARRAY, self)._set_parent_with_dispatch(parent, outer=True)

      if isinstance(self.item_type, SchemaEventTarget):
          self.item_type._set_parent_with_dispatch(parent)
  \<close>
  \<open>set_parent_with_dispatch\<close> gives the objects whose \<^verbatim>\<open>_set_table\<close> one call registers, and
  \<open>on_table_attach\<close> the objects of all callbacks of a column, in their order. The store
  gives the \<^verbatim>\<open>Boolean\<close> objects by their object numbers; an object that is not in the store
  is not a \<^verbatim>\<open>Boolean\<close> and adds no check constraint.
\<close>

fun set_parent_with_dispatch :: "type_ref \<Rightarrow> oid list" where
  "set_parent_with_dispatch (TypeRef i) = [i]"
| "set_parent_with_dispatch (ArrayRef a item) = [item]"

definition on_table_attach :: "column_obj \<Rightarrow> oid list" where
  "on_table_attach column =
     concat (map set_parent_with_dispatch
               (column_type column # map snd (type_variant_mapping column)))"

definition set_table_of :: "(oid \<rightharpoonup> Boolean_obj) \<Rightarrow> column_obj \<Rightarrow> table_obj \<Rightarrow> oid \<Rightarrow> table_obj" where
  "set_table_of store column table i =
     (case store i of
        None \<Rightarrow> table
      | Some self \<Rightarrow> Boolean_set_table self column table)"

definition attach_to_table :: "(oid \<rightharpoonup> Boolean_obj) \<Rightarrow> column_obj \<Rightarrow> table_obj \<Rightarrow> table_obj" where
  "attach_to_table store column table = foldl (set_table_of store column) table (on_table_attach column)"

text \<open>
  The columns of the examples. In \<open>flag_column\<close> the \<^verbatim>\<open>Boolean\<close> object 1 is the type of the
  column and stands under the backend names \<^verbatim>\<open>sqlite\<close> and \<^verbatim>\<open>mysql\<close> of its variant mapping;
  the object 2 stands under \<^verbatim>\<open>oracle\<close>. In \<open>variant_flag_column\<close> the type of the column is the
  \<^verbatim>\<open>Boolean\<close> object 0, and the object 1 stands under \<^verbatim>\<open>sqlite\<close> and \<^verbatim>\<open>mysql\<close>. All three
  objects are built with \<^verbatim>\<open>create_constraint=True\<close>.
\<close>

definition flag_column :: column_obj where
  "flag_column = \<lparr> column_key = ''flag'', column_type = TypeRef 1,
     type_variant_mapping =
       [(''sqlite'', TypeRef 1), (''mysql'', TypeRef 1), (''oracle'', TypeRef 2)] \<rparr>"

definition flag_type :: Boolean_obj where
  "flag_type = \<lparr> boolean_id = 1, create_constraint = True, boolean_name = None \<rparr>"

definition variant_flag_column :: column_obj where
  "variant_flag_column = \<lparr> column_key = ''flag'', column_type = TypeRef 0,
     type_variant_mapping = [(''sqlite'', TypeRef 1), (''mysql'', TypeRef 1)] \<rparr>"

definition flag_types :: "oid \<rightharpoonup> Boolean_obj" where
  "flag_types =
     [0 \<mapsto> \<lparr> boolean_id = 0, create_constraint = True, boolean_name = None \<rparr>,
      1 \<mapsto> flag_type,
      2 \<mapsto> \<lparr> boolean_id = 2, create_constraint = True, boolean_name = None \<rparr>]"


section \<open>Properties of the Boolean coercion\<close>

lemma py_in_strict_bools:
  "py_in v strict_bools \<longleftrightarrow>
     v \<in> {PyNone, PyBool True, PyBool False, PyInt 0, PyInt 1, PyFloat 0, PyFloat 1}"
  by (cases v) (auto simp: py_in_def strict_bools_def py_eq_def)

text \<open>
  The values that the strict check lets through are those that are equal to a member of
  \<^verbatim>\<open>_strict_bools\<close>: \<^verbatim>\<open>None\<close>, \<^verbatim>\<open>True\<close>, \<^verbatim>\<open>False\<close>, the integers 0 and 1, and the floats 0.0 and
  1.0. Any other value fails, in the strict check and so in the literal and the bind
  processor, with a TypeError when it is not an integer and with a ValueError when it is
  another integer. A value let through is returned by the strict check as it is; the bind
  processor coerces it to \<^verbatim>\<open>bool\<close> on a backend with native booleans and to \<^verbatim>\<open>int\<close> otherwise,
  and passes \<^verbatim>\<open>None\<close> through unchanged; the literal processor renders it as the true or the
  false text of the dialect by its truth value.
\<close>

lemma strict_as_bool_cases:
  "strict_as_bool v =
     (if v \<in> {PyNone, PyBool True, PyBool False, PyInt 0, PyInt 1, PyFloat 0, PyFloat 1} then Inr v
      else if isinstance_int v then Inl (ValueError ''Value %r is not None, True, or False'' [v])
      else Inl (TypeError ''Not a boolean value: %r'' [v]))"
  unfolding strict_as_bool_def py_in_strict_bools by simp

lemma Boolean_coercion_cases:
  "(if v \<in> {PyNone, PyBool True, PyBool False, PyInt 0, PyInt 1, PyFloat 0, PyFloat 1} then
      strict_as_bool v = Inr v
      \<and> Boolean_bind_processor d v =
          Inr (if v = PyNone then PyNone
               else if supports_native_boolean d then PyBool (v \<in> {PyBool True, PyInt 1, PyFloat 1})
               else PyInt (if v \<in> {PyBool True, PyInt 1, PyFloat 1} then 1 else 0))
      \<and> Boolean_literal_processor d v =
          Inr (if v \<in> {PyBool True, PyInt 1, PyFloat 1} then visit_true d else visit_false d)
    else if isinstance_int v then
      strict_as_bool v = Inl (ValueError ''Value %r is not None, True, or False'' [v])
      \<and> Boolean_bind_processor d v = Inl (ValueError ''Value %r is not None, True, or False'' [v])
      \<and> Boolean_literal_processor d v = Inl (ValueError ''Value %r is not None, True, or False'' [v])
    else
      strict_as_bool v = Inl (TypeError ''Not a boolean value: %r'' [v])
      \<and> Boolean_bind_processor d v = Inl (TypeError ''Not a boolean value: %r'' [v])
      \<and> Boolean_literal_processor d v = Inl (TypeError ''Not a boolean value: %r'' [v]))"
  unfolding Boolean_bind_processor_def Boolean_literal_processor_def strict_as_bool_cases
  by (auto simp: py_bool_def py_int_def Let_def)

lemma Boolean_coercion_examples:
  "Boolean_bind_processor emulating_dialect (PyBool True) = Inr (PyInt 1)
   \<and> Boolean_bind_processor native_dialect (PyInt 0) = Inr (PyBool False)
   \<and> Boolean_bind_processor native_dialect PyNone = Inr PyNone
   \<and> Boolean_literal_processor native_dialect (PyInt 1) = Inr ''true''
   \<and> Boolean_bind_processor native_dialect (PyInt 15)
       = Inl (ValueError ''Value %r is not None, True, or False'' [PyInt 15])
   \<and> Boolean_bind_processor emulating_dialect (PyStr ''yes'')
       = Inl (TypeError ''Not a boolean value: %r'' [PyStr ''yes''])"
  using Boolean_coercion_cases [of "PyBool True" emulating_dialect]
        Boolean_coercion_cases [of "PyInt 0" native_dialect]
        Boolean_coercion_cases [of PyNone native_dialect]
        Boolean_coercion_cases [of "PyInt 1" native_dialect]
        Boolean_coercion_cases [of "PyInt 15" native_dialect]
        Boolean_coercion_cases [of "PyStr ''yes''" emulating_dialect]
  by (simp add: emulating_dialect_def native_dialect_def)

text \<open>
  C8. Boolean coercion is to accept exactly the values \<^verbatim>\<open>None\<close>, \<^verbatim>\<open>True\<close>, \<^verbatim>\<open>False\<close>, \<^verbatim>\<open>0\<close> and
  \<^verbatim>\<open>1\<close>, and to fail with a TypeError for any other value that is not an integer. The code
  does not do so at the float \<^verbatim>\<open>1.0\<close>, which is not an integer: \<^verbatim>\<open>1.0 in _strict_bools\<close>
  holds, since \<^verbatim>\<open>1.0 == True\<close>, so that the strict check returns the float, the bind
  processor coerces it to \<^verbatim>\<open>1\<close> or to \<^verbatim>\<open>True\<close>, and the literal processor renders the true
  text; likewise \<^verbatim>\<open>0.0\<close> is bound as \<^verbatim>\<open>0\<close> or \<^verbatim>\<open>False\<close>. Any other float, such as \<^verbatim>\<open>2.0\<close>,
  fails with the TypeError that the code raises for the values that are not integers.
\<close>

theorem Boolean_accepts_float:
  "isinstance_int (PyFloat 1) = False
   \<and> py_in (PyFloat 1) strict_bools = True
   \<and> strict_as_bool (PyFloat 1) = Inr (PyFloat 1)
   \<and> Boolean_bind_processor emulating_dialect (PyFloat 1) = Inr (PyInt 1)
   \<and> Boolean_bind_processor native_dialect (PyFloat 1) = Inr (PyBool True)
   \<and> Boolean_literal_processor native_dialect (PyFloat 1) = Inr ''true''
   \<and> Boolean_bind_processor emulating_dialect (PyFloat 0) = Inr (PyInt 0)
   \<and> Boolean_bind_processor native_dialect (PyFloat 0) = Inr (PyBool False)
   \<and> strict_as_bool (PyFloat 2) = Inl (TypeError ''Not a boolean value: %r'' [PyFloat 2])
   \<and> Boolean_bind_processor emulating_dialect (PyFloat 2)
       = Inl (TypeError ''Not a boolean value: %r'' [PyFloat 2])"
  by (simp add: strict_as_bool_def py_in_def strict_bools_def py_eq_def
      Boolean_bind_processor_def Boolean_literal_processor_def py_bool_def py_int_def
      emulating_dialect_def native_dialect_def)


section \<open>Properties of the class table\<close>

lemma mro_simps:
  "mro c = c # (case superclass c of None \<Rightarrow> []
     | Some b \<Rightarrow> b # (case superclass b of None \<Rightarrow> [] | Some a \<Rightarrow> [a]))"
  by (simp add: mro_def split: option.split)

lemma issubclass_Float:
  "issubclass c Float \<longleftrightarrow> c \<in> {Float, Double}"
  by (cases c) (simp_all add: issubclass_def mro_simps)


section \<open>Properties of the numeric result conversion\<close>

text \<open>
  C5, as stated, fails at a \<^verbatim>\<open>Float(asdecimal=True)\<close> on a backend that returns exact
  decimals natively: the claim has no processor installed there, the code installs the
  conversion to decimal with the default scale 10.
\<close>

theorem Float_asdecimal_native_counterexample:
  "asdecimal (Float_init None True None)
   \<and> supports_native_decimal native_dialect
   \<and> result_processor Float (Float_init None True None) native_dialect
       = Some (to_decimal_processor_factory 10)
   \<and> result_processor Float (Float_init None True None) native_dialect \<noteq> None"
  by (simp add: result_processor_def Float_result_processor_def Float_init_def
      native_dialect_def issubclass_Float effective_decimal_return_scale_def
      default_decimal_return_scale_def)

text \<open>
  The base \<^verbatim>\<open>Numeric\<close> conversion reads \<^verbatim>\<open>scale\<close> and never \<^verbatim>\<open>decimal_return_scale\<close>:
  \<^verbatim>\<open>Numeric(scale=2, decimal_return_scale=5)\<close> on a backend that returns floats converts with
  scale 2, while \<^verbatim>\<open>_effective_decimal_return_scale\<close> is 5.
\<close>

lemma Numeric_result_processor_reads_scale_only:
  "effective_decimal_return_scale (Numeric_init None (Some 2) (Some 5) True) = 5
   \<and> result_processor Numeric (Numeric_init None (Some 2) (Some 5) True) emulating_dialect
       = Some (to_decimal_processor_factory 2)"
  by (simp add: result_processor_def Numeric_result_processor_def Numeric_init_def
      emulating_dialect_def issubclass_Float effective_decimal_return_scale_def)

text \<open>
  C5, amended. For a type of the \<^verbatim>\<open>Float\<close> family with \<^verbatim>\<open>asdecimal=True\<close>, on every backend,
  the installed result conversion reconstructs decimals with the resolved scale:
  \<^verbatim>\<open>decimal_return_scale\<close> when set, otherwise the \<^verbatim>\<open>scale\<close> of the type, otherwise 10. For
  a type of the \<^verbatim>\<open>Numeric\<close> family outside the \<^verbatim>\<open>Float\<close> family with \<^verbatim>\<open>asdecimal=True\<close>, no
  result conversion is installed when the backend returns exact decimals natively, and on
  a backend that returns floats, when \<^verbatim>\<open>decimal_return_scale\<close> is unset, the conversion to
  decimal is installed with the resolved scale (\<^verbatim>\<open>scale\<close>, otherwise 10).
\<close>

theorem result_processor_asdecimal:
  assumes "asdecimal self"
  shows "(issubclass cls Float \<longrightarrow>
            result_processor cls self d
              = Some (to_decimal_processor_factory (effective_decimal_return_scale self)))
       \<and> (\<not> issubclass cls Float \<and> supports_native_decimal d \<longrightarrow>
            result_processor cls self d = None)
       \<and> (\<not> issubclass cls Float \<and> \<not> supports_native_decimal d
            \<and> decimal_return_scale self = None \<longrightarrow>
            result_processor cls self d
              = Some (to_decimal_processor_factory (effective_decimal_return_scale self)))
       \<and> effective_decimal_return_scale self
           = (case decimal_return_scale self of
                Some n \<Rightarrow> n
              | None \<Rightarrow> (case scale self of Some s \<Rightarrow> s | None \<Rightarrow> 10))"
  using assms
  by (simp add: result_processor_def Float_result_processor_def Numeric_result_processor_def
      effective_decimal_return_scale_def default_decimal_return_scale_def
      split: option.split)

theorem result_processor_asdecimal_witness:
  "result_processor Double (Float_init None True (Some 4)) native_dialect
     = Some (to_decimal_processor_factory 4)
   \<and> result_processor Numeric (Numeric_init (Some 10) (Some 2) None True) native_dialect = None
   \<and> result_processor Numeric (Numeric_init (Some 10) (Some 2) None True) emulating_dialect
     = Some (to_decimal_processor_factory 2)
   \<and> result_processor Numeric (Numeric_init None None None True) emulating_dialect
     = Some (to_decimal_processor_factory 10)"
  using result_processor_asdecimal [of "Float_init None True (Some 4)" Double native_dialect]
        result_processor_asdecimal [of "Numeric_init (Some 10) (Some 2) None True" Numeric native_dialect]
        result_processor_asdecimal [of "Numeric_init (Some 10) (Some 2) None True" Numeric emulating_dialect]
        result_processor_asdecimal [of "Numeric_init None None None True" Numeric emulating_dialect]
  by (simp add: issubclass_Float Float_init_def Numeric_init_def native_dialect_def
      emulating_dialect_def)


section \<open>Properties of Enum\<close>


lemma map_upds_in_keys:
  assumes "k \<in> set ks" "length ks = length vs"
  shows "\<exists>i < length ks. ks ! i = k \<and> (m(ks [\<mapsto>] vs)) k = Some (vs ! i)"
proof -
  have "k \<in> fst ` set (rev (zip ks vs))" using assms
    by (metis (no_types, lifting) map_fst_zip set_map set_rev)
  then obtain v where v: "map_of (rev (zip ks vs)) k = Some v"
    by (metis (no_types, opaque_lifting) domD dom_map_of_conv_image_fst)
  then have "(k, v) \<in> set (zip ks vs)" by (auto dest: map_of_SomeD)
  then obtain i where "i < length ks" "ks ! i = k" "vs ! i = v"
    using assms by (auto simp: in_set_zip)
  with v show ?thesis by (auto simp: map_upds_def map_add_Some_iff)
qed

lemma traverse_Inr_map:
  "(\<And>x. x \<in> set xs \<Longrightarrow> f x = Inr (g x)) \<Longrightarrow> traverse f xs = Inr (map g xs)"
  by (induction xs) auto

lemma setup_for_values_Inr_D:
  assumes "setup_for_values vals objects = Inr (ens, valid, obj)"
  shows "ens = vals"
    and "obj = Map.empty (map PyStr vals [\<mapsto>] objects)"
    and "\<exists>dbs. traverse (\<lambda>v. case getitem (Map.empty (map PyStr vals [\<mapsto>] objects)) (PyStr v) of
                               Inl e \<Rightarrow> Inl e
                             | Inr ob \<Rightarrow> getitem (Map.empty (rev objects [\<mapsto>] map PyStr (rev vals))) ob) vals = Inr dbs
           \<and> valid = (Map.empty (rev objects [\<mapsto>] map PyStr (rev vals))) (map PyStr vals [\<mapsto>] dbs)"
  using assms by (auto simp: setup_for_values_def Let_def split: sum.splits)

lemma valid0_in_objects:
  assumes l: "length vals = length objects" and x: "x \<in> set objects"
  shows "\<exists>i < length vals. objects ! i = x
           \<and> (Map.empty (rev objects [\<mapsto>] map PyStr (rev vals))) x = Some (PyStr (vals ! i))"
proof -
  have "x \<in> set (rev objects)" using x by simp
  moreover have "length (rev objects) = length (map PyStr (rev vals))" using l by simp
  ultimately obtain j where j: "j < length (rev objects)" "rev objects ! j = x"
      "(Map.empty (rev objects [\<mapsto>] map PyStr (rev vals))) x = Some (map PyStr (rev vals) ! j)"
    using map_upds_in_keys [of x "rev objects" "map PyStr (rev vals)" Map.empty] by blast
  let ?i = "length objects - Suc j"
  have "?i < length vals" using j l by simp
  moreover have "objects ! ?i = x" using j by (simp add: rev_nth)
  moreover have "map PyStr (rev vals) ! j = PyStr (vals ! ?i)" using j l by (simp add: rev_nth)
  ultimately show ?thesis using j by auto
qed




lemma enum_init_Inr_D:
  assumes "enum_init arg kw = Inr e"
      and "parse_into_values (get_default (kw_omit_aliases kw) True) (kw_values_callable kw) arg kw
             = (cls, vals, objects)"
  shows "\<exists>valid obj. setup_for_values vals objects = Inr (vals, valid, obj)
           \<and> valid_lookup e = valid (PyNone \<mapsto> PyNone)
           \<and> object_lookup e = obj (PyNone \<mapsto> PyNone)
           \<and> enums e = vals"
  using assms
  apply (simp add: enum_init_def Let_def split: sum.splits option.splits if_splits prod.splits)
  apply (auto dest: setup_for_values_Inr_D(1))
  done


lemma setup_for_values_labels:
  "\<exists>valid obj. setup_for_values ls (map PyStr ls) = Inr (ls, valid, obj)"
proof -
  let ?ks = "map PyStr ls"
  let ?obj = "Map.empty (?ks [\<mapsto>] ?ks)"
  let ?valid0 = "Map.empty (rev ?ks [\<mapsto>] map PyStr (rev ls))"
  have f: "(case getitem ?obj (PyStr v) of Inl e \<Rightarrow> Inl e | Inr ob \<Rightarrow> getitem ?valid0 ob)
             = Inr (PyStr v)" if "v \<in> set ls" for v
  proof -
    have k: "PyStr v \<in> set ?ks" using that by simp
    from map_upds_in_keys [OF k, of ?ks Map.empty]
    have 1: "?obj (PyStr v) = Some (PyStr v)" by auto
    from valid0_in_objects [of ls ?ks "PyStr v"] k
    have 2: "?valid0 (PyStr v) = Some (PyStr v)" by auto
    show ?thesis using 1 2 by (simp add: getitem_def)
  qed
  show ?thesis
    using traverse_Inr_map [of ls _ PyStr, OF f]
    by (simp add: setup_for_values_def Let_def)
qed

text \<open>An enum of string labels with no explicit length is always constructed.\<close>

lemma enum_init_Labels_total:
  assumes "kw_length kw = None" and "ls \<noteq> [] \<or> kw_enums kw = None"
  shows "\<exists>e. enum_init (Labels ls) kw = Inr e"
proof -
  have p: "parse_into_values omit callable (Labels ls) kw = (None, ls, map PyStr ls)"
    for omit callable
    using assms(2) by (cases ls) (auto simp: parse_into_values_def)
  obtain valid obj where s: "setup_for_values ls (map PyStr ls) = Inr (ls, valid, obj)"
    using setup_for_values_labels by blast
  show ?thesis
    using assms(1) by (simp add: enum_init_def p s Let_def)
qed

text \<open>
  An enumeration class with an alias, \<^verbatim>\<open>c = a\<close>, and \<^verbatim>\<open>omit_aliases=False\<close>: the first
  defined name is the database value of the member, and every name leads back to it.
\<close>

lemma enum_class_alias_example:
  "(case enum_init (EnumClass \<lparr>name_lower = ''letters'',
                      members = [(''a'', ''a''), (''b'', ''b''), (''c'', ''a'')]\<rparr>)
            (no_kw\<lparr>kw_omit_aliases := Some False\<rparr>) of
      Inl err \<Rightarrow> False
    | Inr e \<Rightarrow>
        enums e = [''a'', ''b'', ''c'']
        \<and> enum_name e = Some ''letters''
        \<and> db_value_for_elem e (PyMember ''a'') = Inr (PyStr ''a'')
        \<and> db_value_for_elem e (PyStr ''c'') = Inr (PyStr ''a'')
        \<and> object_value_for_elem e (PyStr ''c'') = Inr (PyMember ''a'')
        \<and> object_value_for_elem e (PyStr ''a'') = Inr (PyMember ''a''))"
  by (simp add: enum_init_def no_kw_def get_default_def parse_into_values_def
      setup_for_values_def getitem_def Let_def db_value_for_elem_def object_value_for_elem_def)

lemma colours_eval:
  "colours strict = Inr \<lparr> enums = [''red'', ''green'', ''blue''], enum_class = None,
      valid_lookup = [PyStr ''red'' \<mapsto> PyStr ''red'', PyStr ''green'' \<mapsto> PyStr ''green'',
                      PyStr ''blue'' \<mapsto> PyStr ''blue'', PyNone \<mapsto> PyNone],
      object_lookup = [PyStr ''red'' \<mapsto> PyStr ''red'', PyStr ''green'' \<mapsto> PyStr ''green'',
                      PyStr ''blue'' \<mapsto> PyStr ''blue'', PyNone \<mapsto> PyNone],
      validate_strings = strict, native_enum = True, enum_create_constraint = False,
      omit_aliases = True, default_length = 5, enum_length = 5, enum_name = None \<rparr>"
  by (simp add: colours_def enum_init_def no_kw_def get_default_def parse_into_values_def
      setup_for_values_def getitem_def Let_def)

text \<open>
  C3. A host value that the lookup of the enum does not hold is returned unchanged by the
  value lookup when it is a raw string and \<^verbatim>\<open>validate_strings\<close> is off: the bind processor
  returns it (\<^verbatim>\<open>String\<close> has no bind processor) and the literal processor hands it, as it is,
  to the literal processor of \<^verbatim>\<open>String\<close>. Otherwise the lookup, and with it the bind and the
  literal processor, fail with the LookupError that carries the name of the enum and its
  values. In particular, with \<^verbatim>\<open>validate_strings=True\<close> and the labels red, green, blue,
  binding \<^verbatim>\<open>"red"\<close> gives \<^verbatim>\<open>"red"\<close> and binding \<^verbatim>\<open>"purple"\<close> fails with the LookupError
  that lists red, green, blue.
\<close>

theorem Enum_unknown_value:
  "(valid_lookup self v = None \<longrightarrow>
      (if \<not> validate_strings self \<and> isinstance_str v then
         db_value_for_elem self v = Inr v
         \<and> Enum_bind_processor self d v = Inr v
         \<and> Enum_literal_processor self d v = String_literal_processor d v
       else
         db_value_for_elem self v = Inl (LookupError v (enum_name self) (enums self))
         \<and> Enum_bind_processor self d v = Inl (LookupError v (enum_name self) (enums self))
         \<and> Enum_literal_processor self d v = Inl (LookupError v (enum_name self) (enums self))))
   \<and> (case colours True of
         Inl err \<Rightarrow> False
       | Inr e \<Rightarrow>
           Enum_bind_processor e d (PyStr ''red'') = Inr (PyStr ''red'')
           \<and> Enum_bind_processor e d (PyStr ''purple'')
               = Inl (LookupError (PyStr ''purple'') None [''red'', ''green'', ''blue'']))"
  by (simp add: colours_eval db_value_for_elem_def Enum_bind_processor_def
      Enum_literal_processor_def String_bind_processor_def)

theorem Enum_unknown_value_witness:
  "(case colours False of
      Inl err \<Rightarrow> False
    | Inr e \<Rightarrow>
        valid_lookup e (PyStr ''purple'') = None
        \<and> Enum_bind_processor e emulating_dialect (PyStr ''purple'') = Inr (PyStr ''purple'')
        \<and> Enum_literal_processor e emulating_dialect (PyStr ''purple'')
            = Inr (quote_char # ''purple'' @ [quote_char])
        \<and> Enum_bind_processor e emulating_dialect (PyInt 7)
            = Inl (LookupError (PyInt 7) None [''red'', ''green'', ''blue'']))
   \<and> (case colours True of
      Inl err \<Rightarrow> False
    | Inr e \<Rightarrow>
        Enum_bind_processor e emulating_dialect (PyStr ''red'') = Inr (PyStr ''red'')
        \<and> Enum_literal_processor e emulating_dialect (PyStr ''purple'')
            = Inl (LookupError (PyStr ''purple'') None [''red'', ''green'', ''blue'']))"
  using Enum_unknown_value [of "projr (colours False)" "PyStr ''purple''" emulating_dialect]
        Enum_unknown_value [of "projr (colours False)" "PyInt 7" emulating_dialect]
        Enum_unknown_value [of "projr (colours True)" "PyStr ''purple''" emulating_dialect]
  by (simp add: colours_eval String_literal_processor_def replace_char_def quote_char_def
      emulating_dialect_def)






text \<open>
  C10, as stated, fails at the literal processor, which is one of the three processors of
  \<^verbatim>\<open>Enum\<close>: the lookup returns \<^verbatim>\<open>None\<close>, and the literal processor of \<^verbatim>\<open>String\<close> that runs
  next calls \<^verbatim>\<open>None.replace\<close>.
\<close>

theorem Enum_literal_None_counterexample:
  "(case colours False of
      Inl err \<Rightarrow> False
    | Inr e \<Rightarrow>
        db_value_for_elem e PyNone = Inr PyNone
        \<and> Enum_literal_processor e native_dialect PyNone = Inl (AttributeError ''replace'')
        \<and> Enum_literal_processor e emulating_dialect PyNone = Inl (AttributeError ''replace''))"
  by (simp add: colours_eval db_value_for_elem_def Enum_literal_processor_def
      String_literal_processor_def)

text \<open>
  C10, amended. For every enum, whatever \<^verbatim>\<open>validate_strings\<close> is, \<^verbatim>\<open>None\<close> is a key of both
  lookup maps and maps to \<^verbatim>\<open>None\<close>; the database value of \<^verbatim>\<open>None\<close> and the object of a
  database \<^verbatim>\<open>NULL\<close> are \<^verbatim>\<open>None\<close>, with no LookupError; so \<^verbatim>\<open>NULL\<close> passes the bind
  processor and the result processor untouched. The literal processor passes \<^verbatim>\<open>None\<close>
  through its lookup too and hands it to the literal processor of \<^verbatim>\<open>String\<close>, which does
  not render \<^verbatim>\<open>None\<close>: it fails with an AttributeError, not a LookupError.
\<close>

theorem Enum_None_passes:
  assumes "enum_init arg kw = Inr e"
  shows "valid_lookup e PyNone = Some PyNone
       \<and> object_lookup e PyNone = Some PyNone
       \<and> db_value_for_elem e PyNone = Inr PyNone
       \<and> object_value_for_elem e PyNone = Inr PyNone
       \<and> Enum_bind_processor e d PyNone = Inr PyNone
       \<and> Enum_result_processor e d PyNone = Inr PyNone
       \<and> Enum_literal_processor e d PyNone = String_literal_processor d PyNone
       \<and> String_literal_processor d PyNone = Inl (AttributeError ''replace'')"
proof -
  obtain cls vals objects where
    p: "parse_into_values (get_default (kw_omit_aliases kw) True) (kw_values_callable kw) arg kw
          = (cls, vals, objects)"
    by (cases "parse_into_values (get_default (kw_omit_aliases kw) True)
                 (kw_values_callable kw) arg kw") auto
  from enum_init_Inr_D [OF assms p] obtain valid obj where
    "valid_lookup e = valid (PyNone \<mapsto> PyNone)" "object_lookup e = obj (PyNone \<mapsto> PyNone)"
    by blast
  then show ?thesis
    by (simp add: db_value_for_elem_def object_value_for_elem_def Enum_bind_processor_def
        Enum_result_processor_def Enum_literal_processor_def String_bind_processor_def
        String_result_processor_def String_literal_processor_def)
qed

theorem Enum_None_passes_witness:
  "(case colours True of
      Inl err \<Rightarrow> False
    | Inr e \<Rightarrow>
        Enum_bind_processor e emulating_dialect PyNone = Inr PyNone
        \<and> Enum_result_processor e emulating_dialect PyNone = Inr PyNone)"
proof -
  obtain e where e: "colours True = Inr e" by (simp add: colours_eval)
  then have "enum_init (Labels [''red'', ''green'', ''blue''])
               (no_kw\<lparr>kw_validate_strings := Some True\<rparr>) = Inr e"
    by (simp add: colours_def)
  from Enum_None_passes [OF this, of emulating_dialect] show ?thesis using e by simp
qed


section \<open>Properties of the JSON bind processor\<close>

text \<open>
  C6. The bind conversion of JSON maps the host value \<^verbatim>\<open>None\<close> to the SQL NULL when
  \<^verbatim>\<open>none_as_null\<close> is set, and maps the sentinel \<^verbatim>\<open>JSON.NULL\<close>, whatever \<^verbatim>\<open>none_as_null\<close> is,
  to what the serializer makes of \<^verbatim>\<open>None\<close> (passed through the string processor when there
  is one): with the serializer of the standard library, which writes \<^verbatim>\<open>None\<close> as \<^verbatim>\<open>null\<close>,
  and no serializer of the dialect, it is the JSON literal \<^verbatim>\<open>null\<close>.
\<close>

theorem JSON_bind_null:
  "make_bind_processor True sp ser PyNone = Inr PyNone
   \<and> make_bind_processor nan sp ser JSON_NULL
       = (case ser PyNone of
            Inl e \<Rightarrow> Inl e
          | Inr s \<Rightarrow> (case sp of None \<Rightarrow> Inr (PyStr s) | Some p \<Rightarrow> p (PyStr s)))
   \<and> JSON_bind_processor dumps True d PyNone = Inr PyNone
   \<and> (json_serializer d = None \<and> dumps PyNone = Inr ''null'' \<longrightarrow>
        JSON_bind_processor dumps nan d JSON_NULL = Inr (PyStr ''null''))"
  by (simp add: make_bind_processor_def JSON_bind_processor_def JSON_NULL_def
      String_bind_processor_def split: option.split sum.split)

theorem JSON_bind_null_witness:
  "JSON_bind_processor constants_serializer True emulating_dialect PyNone = Inr PyNone
   \<and> JSON_bind_processor constants_serializer True emulating_dialect JSON_NULL
       = Inr (PyStr ''null'')
   \<and> JSON_bind_processor constants_serializer False emulating_dialect JSON_NULL
       = Inr (PyStr ''null'')"
  using JSON_bind_null [of None constants_serializer True constants_serializer emulating_dialect]
        JSON_bind_null [of None constants_serializer False constants_serializer emulating_dialect]
  by (simp add: constants_serializer_def emulating_dialect_def)


section \<open>Properties of the expression adaptation\<close>

lemma issubclass_simps:
  "issubclass c String \<longleftrightarrow> c \<in> {String, Text, Unicode, UnicodeText, Enum}"
  "issubclass c Integer \<longleftrightarrow> c \<in> {Integer, SmallInteger, BigInteger}"
  "issubclass c Numeric \<longleftrightarrow> c \<in> {Numeric, Float, Double}"
  "issubclass c DateTime \<longleftrightarrow> c = DateTime"
  "issubclass c Date \<longleftrightarrow> c = Date"
  "issubclass c Time \<longleftrightarrow> c = Time"
  "issubclass c Interval \<longleftrightarrow> c = Interval"
  "issubclass c Binary \<longleftrightarrow> c \<in> {Binary, LargeBinary}"
  "issubclass c Boolean \<longleftrightarrow> c \<in> {Boolean, MatchType}"
  by (cases c; simp add: issubclass_def mro_simps)+

lemma type_affinity_of_simps:
  "type_affinity_of SmallInteger = Integer" "type_affinity_of BigInteger = Integer"
  "type_affinity_of Integer = Integer" "type_affinity_of Double = Numeric"
  "type_affinity_of Date = Date" "type_affinity_of DateTime = DateTime"
  "type_affinity_of Interval = Interval" "type_affinity_of Enum = String"
  by (simp_all add: type_affinity_of_def issubclass_simps mro_simps)


lemma default_instance_class:
  "c \<noteq> ARRAY \<Longrightarrow> \<exists>t. default_instance c = Inr t \<and> class_of t = c"
  by (cases c; simp add: default_instance_def issubclass_simps issubclass_Float
      enum_init_def no_kw_def get_default_def parse_into_values_def setup_for_values_def Let_def)

lemma table_entry_SomeD:
  "table_entry tab op k = Some c \<Longrightarrow> \<exists>d. (op, d) \<in> set tab \<and> (k, c) \<in> set d"
  by (auto simp: table_entry_def split: option.splits dest: map_of_SomeD)

lemma table_range:
  assumes "expression_adaptations cls = Some tab" "table_entry tab op k = Some c"
  shows "c \<noteq> ARRAY"
proof -
  from table_entry_SomeD [OF assms(2)] obtain d where d: "(op, d) \<in> set tab" "(k, c) \<in> set d"
    by blast
  have "cls \<noteq> ARRAY" using assms(1)
    by (auto simp: expression_adaptations_def issubclass_simps split: if_splits)
  with assms(1) d show ?thesis
    by (auto simp: expression_adaptations_def split: if_splits)
qed

text \<open>
  C1. For every binary operator and two typed operands, where the left operand has an
  adaptation table, the lookup in the table of the left operand, keyed by the operator and
  by the affinity of the right operand, decides the result type, in this order: when the
  table has no entry, the result is the left operand's own type; when the entry is the
  affinity of the right operand, it is the concrete type of the right operand; when the
  entry is the affinity of the left operand, it is the concrete type of the left operand;
  otherwise it is the instance of the looked-up class with default configuration, which
  exists for every entry of the tables. The operator is returned unchanged.
\<close>

theorem adapt_expression_by_lookup:
  assumes "expression_adaptations (class_of self_type) = Some tab"
  shows "HasExpressionLookup_adapt_expression self_type op other_type =
           (case table_entry tab op (type_affinity other_type) of
              None \<Rightarrow> Inr (op, self_type)
            | Some c \<Rightarrow>
                if c = type_affinity other_type then Inr (op, other_type)
                else if c = type_affinity self_type then Inr (op, self_type)
                else (case default_instance c of Inl e \<Rightarrow> Inl e | Inr t \<Rightarrow> Inr (op, t)))
       \<and> (\<forall>c. table_entry tab op (type_affinity other_type) = Some c \<longrightarrow>
             (\<exists>t. default_instance c = Inr t \<and> class_of t = c))"
proof -
  have 1: "HasExpressionLookup_adapt_expression self_type op other_type =
           (case table_entry tab op (type_affinity other_type) of
              None \<Rightarrow> Inr (op, self_type)
            | Some c \<Rightarrow>
                if c = type_affinity other_type then Inr (op, other_type)
                else if c = type_affinity self_type then Inr (op, self_type)
                else (case default_instance c of Inl e \<Rightarrow> Inl e | Inr t \<Rightarrow> Inr (op, t)))"
    using assms
    by (simp add: HasExpressionLookup_adapt_expression_def Let_def split: option.split)
  have 2: "\<exists>t. default_instance c = Inr t \<and> class_of t = c"
    if "table_entry tab op (type_affinity other_type) = Some c" for c
    using default_instance_class [OF table_range [OF assms that]] .
  from 1 2 show ?thesis by blast
qed

lemma expression_adaptations_Integer:
  "expression_adaptations Integer = Some
        [(operators_add, [(Date, Date), (Integer, Integer), (Numeric, Numeric)]),
         (operators_mul, [(Interval, Interval), (Integer, Integer), (Numeric, Numeric)]),
         (operators_truediv, [(Integer, Numeric), (Numeric, Numeric)]),
         (operators_floordiv, [(Integer, Integer), (Numeric, Numeric)]),
         (operators_sub, [(Integer, Integer), (Numeric, Numeric)])]"
  by (simp add: expression_adaptations_def issubclass_simps)

lemma expression_adaptations_Numeric:
  "expression_adaptations Numeric = Some
        [(operators_mul, [(Interval, Interval), (Numeric, Numeric), (Integer, Numeric)]),
         (operators_truediv, [(Numeric, Numeric), (Integer, Numeric)]),
         (operators_add, [(Numeric, Numeric), (Integer, Numeric)]),
         (operators_sub, [(Numeric, Numeric), (Integer, Numeric)])]"
  by (simp add: expression_adaptations_def issubclass_simps)

lemma expression_adaptations_Date:
  "expression_adaptations Date = Some
        [(operators_add, [(Integer, Date), (Interval, DateTime), (Time, DateTime)]),
         (operators_sub, [(Integer, Date), (Date, Integer), (Interval, DateTime),
                          (DateTime, Interval)])]"
  by (simp add: expression_adaptations_def issubclass_simps)

lemma default_instance_simps:
  "default_instance Integer = Inr (Integer_type Integer)"
  "default_instance Numeric = Inr (Numeric_type Numeric (Numeric_init None None None True))"
  "default_instance Interval = Inr (Interval_type True None None)"
  by (simp_all add: default_instance_def issubclass_simps issubclass_Float)

text \<open>The examples of the specification.\<close>

lemma adapt_expression_examples:
  "HasExpressionLookup_adapt_expression (Integer_type Integer) operators_add (Integer_type Integer)
     = Inr (operators_add, Integer_type Integer)"
  "HasExpressionLookup_adapt_expression (Integer_type Integer) operators_truediv (Integer_type Integer)
     = Inr (operators_truediv, Numeric_type Numeric (Numeric_init None None None True))"
  "HasExpressionLookup_adapt_expression Date_type operators_sub Date_type
     = Inr (operators_sub, Integer_type Integer)"
  "HasExpressionLookup_adapt_expression Date_type operators_sub (DateTime_type False)
     = Inr (operators_sub, Interval_type True None None)"
  by (simp_all add: HasExpressionLookup_adapt_expression_def expression_adaptations_Integer
      expression_adaptations_Date table_entry_def type_affinity_def type_affinity_of_simps
      default_instance_simps)

theorem adapt_expression_by_lookup_witness:
  "HasExpressionLookup_adapt_expression Date_type operators_add (String_type Text (Some 10) None)
     = Inr (operators_add, Date_type)
   \<and> HasExpressionLookup_adapt_expression (Integer_type Integer) operators_add
        (Numeric_type Numeric (Numeric_init (Some 10) (Some 2) None True))
     = Inr (operators_add, Numeric_type Numeric (Numeric_init (Some 10) (Some 2) None True))
   \<and> HasExpressionLookup_adapt_expression
        (Numeric_type Numeric (Numeric_init (Some 10) (Some 2) None True)) operators_mul
        (Integer_type SmallInteger)
     = Inr (operators_mul, Numeric_type Numeric (Numeric_init (Some 10) (Some 2) None True))
   \<and> HasExpressionLookup_adapt_expression (Integer_type Integer) operators_truediv
        (Integer_type BigInteger)
     = Inr (operators_truediv, Numeric_type Numeric (Numeric_init None None None True))"
proof -
  have d: "expression_adaptations (class_of Date_type) = Some
        [(operators_add, [(Integer, Date), (Interval, DateTime), (Time, DateTime)]),
         (operators_sub, [(Integer, Date), (Date, Integer), (Interval, DateTime),
                          (DateTime, Interval)])]"
    by (simp add: expression_adaptations_Date)
  have i: "expression_adaptations (class_of (Integer_type Integer)) = Some
        [(operators_add, [(Date, Date), (Integer, Integer), (Numeric, Numeric)]),
         (operators_mul, [(Interval, Interval), (Integer, Integer), (Numeric, Numeric)]),
         (operators_truediv, [(Integer, Numeric), (Numeric, Numeric)]),
         (operators_floordiv, [(Integer, Integer), (Numeric, Numeric)]),
         (operators_sub, [(Integer, Integer), (Numeric, Numeric)])]"
    by (simp add: expression_adaptations_Integer)
  have n: "expression_adaptations
             (class_of (Numeric_type Numeric (Numeric_init (Some 10) (Some 2) None True))) = Some
        [(operators_mul, [(Interval, Interval), (Numeric, Numeric), (Integer, Numeric)]),
         (operators_truediv, [(Numeric, Numeric), (Integer, Numeric)]),
         (operators_add, [(Numeric, Numeric), (Integer, Numeric)]),
         (operators_sub, [(Numeric, Numeric), (Integer, Numeric)])]"
    by (simp add: expression_adaptations_Numeric)
  show ?thesis
    using adapt_expression_by_lookup [OF d, of operators_add "String_type Text (Some 10) None"]
          adapt_expression_by_lookup [OF i, of operators_add
            "Numeric_type Numeric (Numeric_init (Some 10) (Some 2) None True)"]
          adapt_expression_by_lookup [OF n, of operators_mul "Integer_type SmallInteger"]
          adapt_expression_by_lookup [OF i, of operators_truediv "Integer_type BigInteger"]
    by (simp add: table_entry_def type_affinity_def type_affinity_of_simps default_instance_simps
        type_affinity_of_def issubclass_simps mro_simps)
qed

lemma concatenable_comparators:
  "isinstance_comparator (comparator_factory c) Concatenable_Comparator
     \<or> isinstance_comparator (comparator_factory c) NullType_Comparator
   \<longleftrightarrow> c \<in> {String, Text, Unicode, UnicodeText, Enum, JSON, ARRAY, NullType}"
  by (cases c; simp add: isinstance_comparator_def comparator_factory_def issubclass_simps)

lemma comparator_factory_concatenable:
  "c \<in> {String, Text, Unicode, UnicodeText, JSON, ARRAY} \<Longrightarrow>
     comparator_factory c \<in> {Concatenable_Comparator, JSON_Comparator, ARRAY_Comparator}"
  by (auto simp: comparator_factory_def issubclass_simps)


lemma Concatenable_adapt_expression_classes:
  "Concatenable_adapt_expression super_adapt self_type op other_type =
     (if op = operators_add
         \<and> class_of other_type \<in> {String, Text, Unicode, UnicodeText, Enum, JSON, ARRAY, NullType}
      then Inr (operators_concat_op, self_type)
      else super_adapt self_type op other_type)"
  unfolding Concatenable_adapt_expression_def Let_def concatenable_comparators ..

lemma typed_adapt_expression_concatenable:
  assumes "class_of self_type \<in> {String, Text, Unicode, UnicodeText, JSON, ARRAY}"
  shows "typed_adapt_expression base_adapt self_type op other_type
           = Concatenable_adapt_expression base_adapt self_type op other_type"
proof -
  have "comparator_factory (class_of self_type)
          \<in> {Concatenable_Comparator, JSON_Comparator, ARRAY_Comparator}"
    by (rule comparator_factory_concatenable [OF assms])
  then consider "comparator_factory (class_of self_type) = Concatenable_Comparator"
    | "comparator_factory (class_of self_type) = JSON_Comparator"
    | "comparator_factory (class_of self_type) = ARRAY_Comparator" by blast
  then show ?thesis
    by cases (simp_all add: typed_adapt_expression_def)
qed

lemma adapt_expression_typed:
  assumes "class_of self_type \<noteq> NullType"
  shows "adapt_expression base_adapt is_commutative self_type op other_type
           = typed_adapt_expression base_adapt self_type op other_type"
proof -
  have "comparator_factory (class_of self_type) \<noteq> NullType_Comparator"
    using assms by (simp add: comparator_factory_def)
  then show ?thesis by (simp add: adapt_expression_def)
qed


lemma Enum_adapt_expression_classes:
  "typed_adapt_expression base_adapt (Enum_type e) op other_type =
        (if op = operators_add
            \<and> class_of other_type \<in> {String, Text, Unicode, UnicodeText, Enum, JSON, ARRAY, NullType}
         then Inr (operators_concat_op, String_type String (Some (enum_length e)) None)
         else (case base_adapt (Enum_type e) op other_type of
                 Inl err \<Rightarrow> Inl err
               | Inr (op', t) \<Rightarrow>
                   if op' = operators_concat_op
                   then Inr (op', String_type String (Some (enum_length e)) None)
                   else Inr (op', t)))"
proof -
  have c: "comparator_factory (class_of (Enum_type e)) = Enum_Comparator"
    by (simp add: comparator_factory_def)
  show ?thesis
    unfolding typed_adapt_expression_def c Enum_adapt_expression_def
      Concatenable_adapt_expression_classes
    by (simp split: sum.split prod.split)
qed

text \<open>
  C9, amended. For every concatenable type other than \<^verbatim>\<open>Enum\<close> (the \<^verbatim>\<open>String\<close> types, \<^verbatim>\<open>JSON\<close>
  and \<^verbatim>\<open>ARRAY\<close>), the add operator with a right operand that is concatenable too or is
  the null type gives the concatenation operator with the left operand's own type, with no
  lookup in an adaptation table; for any other operator or right operand the resolution is
  the inherited one (\<^verbatim>\<open>super()._adapt_expression\<close>). For an \<^verbatim>\<open>Enum\<close> the same holds, except that
  whenever the resulting operator is the concatenation operator the result type is a plain
  \<^verbatim>\<open>String\<close> of the length of the enum.
\<close>

theorem Concatenable_add:
  "(class_of self_type \<in> {String, Text, Unicode, UnicodeText, JSON, ARRAY} \<longrightarrow>
      adapt_expression base_adapt is_commutative self_type op other_type =
        (if op = operators_add
            \<and> class_of other_type \<in> {String, Text, Unicode, UnicodeText, Enum, JSON, ARRAY, NullType}
         then Inr (operators_concat_op, self_type)
         else base_adapt self_type op other_type))
   \<and> adapt_expression base_adapt is_commutative (Enum_type e) op other_type =
        (if op = operators_add
            \<and> class_of other_type \<in> {String, Text, Unicode, UnicodeText, Enum, JSON, ARRAY, NullType}
         then Inr (operators_concat_op, String_type String (Some (enum_length e)) None)
         else (case base_adapt (Enum_type e) op other_type of
                 Inl err \<Rightarrow> Inl err
               | Inr (op', t) \<Rightarrow>
                   if op' = operators_concat_op
                   then Inr (op', String_type String (Some (enum_length e)) None)
                   else Inr (op', t)))"
proof (rule conjI)
  show "class_of self_type \<in> {String, Text, Unicode, UnicodeText, JSON, ARRAY} \<longrightarrow>
      adapt_expression base_adapt is_commutative self_type op other_type =
        (if op = operators_add
            \<and> class_of other_type \<in> {String, Text, Unicode, UnicodeText, Enum, JSON, ARRAY, NullType}
         then Inr (operators_concat_op, self_type)
         else base_adapt self_type op other_type)"
  proof
    assume a: "class_of self_type \<in> {String, Text, Unicode, UnicodeText, JSON, ARRAY}"
    then have "class_of self_type \<noteq> NullType" by auto
    from adapt_expression_typed [OF this] typed_adapt_expression_concatenable [OF a]
    show "adapt_expression base_adapt is_commutative self_type op other_type =
        (if op = operators_add
            \<and> class_of other_type \<in> {String, Text, Unicode, UnicodeText, Enum, JSON, ARRAY, NullType}
         then Inr (operators_concat_op, self_type)
         else base_adapt self_type op other_type)"
      by (simp only: Concatenable_adapt_expression_classes)
  qed
next
  have "class_of (Enum_type e) \<noteq> NullType" by simp
  from adapt_expression_typed [OF this]
  show "adapt_expression base_adapt is_commutative (Enum_type e) op other_type =
        (if op = operators_add
            \<and> class_of other_type \<in> {String, Text, Unicode, UnicodeText, Enum, JSON, ARRAY, NullType}
         then Inr (operators_concat_op, String_type String (Some (enum_length e)) None)
         else (case base_adapt (Enum_type e) op other_type of
                 Inl err \<Rightarrow> Inl err
               | Inr (op', t) \<Rightarrow>
                   if op' = operators_concat_op
                   then Inr (op', String_type String (Some (enum_length e)) None)
                   else Inr (op', t)))"
    by (simp only: Enum_adapt_expression_classes)
qed


text \<open>
  C9, as stated, fails at \<^verbatim>\<open>Enum\<close>, a subclass of \<^verbatim>\<open>String\<close> and so a concatenable type: for
  \<^verbatim>\<open>Enum("red", "green", "blue") + String()\<close> the operator is the concatenation operator, and
  the type is \<^verbatim>\<open>String(5)\<close>, not the left operand's own type.
\<close>

theorem Enum_add_counterexample:
  "(case colours False of
      Inl err \<Rightarrow> False
    | Inr e \<Rightarrow>
        adapt_expression TypeEngine_adapt_expression (\<lambda>op. op = operators_add \<or> op = operators_mul)
            (Enum_type e) operators_add (String_type String None None)
          = Inr (operators_concat_op, String_type String (Some 5) None)
        \<and> String_type String (Some 5) None \<noteq> Enum_type e)"
proof -
  have "adapt_expression TypeEngine_adapt_expression (\<lambda>op. op = operators_add \<or> op = operators_mul)
            (Enum_type e) operators_add (String_type String None None)
          = Inr (operators_concat_op, String_type String (Some (enum_length e)) None)" for e
    by (simp add: adapt_expression_typed Enum_adapt_expression_classes)
  then show ?thesis
    by (simp add: colours_eval)
qed

theorem Concatenable_add_witness:
  "adapt_expression TypeEngine_adapt_expression (\<lambda>op. op = operators_add \<or> op = operators_mul)
       (String_type Unicode (Some 20) None) operators_add NullType_type
     = Inr (operators_concat_op, String_type Unicode (Some 20) None)
   \<and> adapt_expression TypeEngine_adapt_expression (\<lambda>op. op = operators_add \<or> op = operators_mul)
       (String_type Unicode (Some 20) None) operators_add (Integer_type Integer)
     = Inr (operators_add, String_type Unicode (Some 20) None)
   \<and> adapt_expression TypeEngine_adapt_expression (\<lambda>op. op = operators_add \<or> op = operators_mul)
       (ARRAY_type (Integer_type Integer) False None False) operators_sub (JSON_type False)
     = Inr (operators_sub, ARRAY_type (Integer_type Integer) False None False)"
  using Concatenable_add [of "String_type Unicode (Some 20) None" TypeEngine_adapt_expression
          "\<lambda>op. op = operators_add \<or> op = operators_mul" operators_add NullType_type]
        Concatenable_add [of "String_type Unicode (Some 20) None" TypeEngine_adapt_expression
          "\<lambda>op. op = operators_add \<or> op = operators_mul" operators_add "Integer_type Integer"]
        Concatenable_add [of "ARRAY_type (Integer_type Integer) False None False"
          TypeEngine_adapt_expression
          "\<lambda>op. op = operators_add \<or> op = operators_mul" operators_sub "JSON_type False"]
  by (simp add: TypeEngine_adapt_expression_def)


section \<open>Properties of the indexing\<close>

text \<open>
  Indexing an \<^verbatim>\<open>ARRAY\<close> with an integer gives an expression typed as the item type when the
  dimensionality is 1 or unconstrained, and as the array of dimensionality \<open>n - 1\<close> when it
  is fixed to another \<open>n\<close>; indexing with a slice gives an expression of the same array type
  when \<^verbatim>\<open>zero_indexes\<close> is off or both bounds of the slice are given. In particular
  \<^verbatim>\<open>ARRAY(Integer, dimensions=2)\<close> indexed once is typed \<^verbatim>\<open>ARRAY(Integer, dimensions=1)\<close>, and
  indexed twice is typed \<^verbatim>\<open>Integer\<close>.
\<close>

lemma getitem_dimensions:
  "getitem_type (ARRAY_type item tup dims zi) key (IntIndex i)
     = Inr (case dims of
              None \<Rightarrow> item
            | Some n \<Rightarrow> if n = 1 then item else ARRAY_type item tup (Some (n - 1)) zi)
   \<and> (\<not> zi \<or> (start \<noteq> None \<and> stop \<noteq> None) \<longrightarrow>
        getitem_type (ARRAY_type item tup dims zi) key (SliceIndex start stop step)
          = Inr (ARRAY_type item tup dims zi))
   \<and> (case ARRAY_init (Inl Integer) False (Some 2) False of
         Inl e \<Rightarrow> False
       | Inr arr \<Rightarrow>
           getitem_type arr key (IntIndex 5)
             = Inr (ARRAY_type (Integer_type Integer) False (Some 1) False)
           \<and> (case getitem_type arr key (IntIndex 5) of
                 Inl e \<Rightarrow> False
               | Inr row \<Rightarrow> getitem_type row key' (IntIndex 6) = Inr (Integer_type Integer)))"
  by (auto simp: getitem_type_def Let_def py_add_one_def ARRAY_init_def default_instance_simps
      split: option.splits)

text \<open>
  Indexing a \<^verbatim>\<open>JSON\<close> expression gives an expression of the same type, with the path operator
  for a sequence that is not a string and with the item operator otherwise.
\<close>

lemma JSON_getitem:
  "setup_getitem (JSON_type nan) key (IntIndex 3)
     = Inr (operators_json_getitem_op, BindParameter (IntIndex 3) JSONIntIndexType, JSON_type nan)
   \<and> setup_getitem (JSON_type nan) key (StrIndex ''k'')
     = Inr (operators_json_getitem_op, BindParameter (StrIndex ''k'') JSONStrIndexType,
            JSON_type nan)
   \<and> setup_getitem (JSON_type nan) key (PathIndex [PyStr ''a'', PyInt 1])
     = Inr (operators_json_path_getitem_op,
            BindParameter (PathIndex [PyStr ''a'', PyInt 1]) JSONPathType, JSON_type nan)
   \<and> getitem_type (JSON_type nan) key idx = Inr (JSON_type nan)"
  by (simp add: getitem_type_def is_sequence_index_def isinstance_int_index_def)

text \<open>
  C7. Indexing an array with a slice is to give an expression of the same array type. The
  code does not do so for a slice with an omitted bound on an array with
  \<^verbatim>\<open>zero_indexes=True\<close>: for \<^verbatim>\<open>ARRAY(Integer, dimensions=2, zero_indexes=True)\<close> and the slice
  \<^verbatim>\<open>[:5]\<close>, and likewise for \<^verbatim>\<open>[2:]\<close>, the shift of the bounds computes \<^verbatim>\<open>None + 1\<close> and raises
  a TypeError, so that no expression results. The same slice on the same array without
  \<^verbatim>\<open>zero_indexes\<close> gives the expression of the array type, and so does, with the bounds
  shifted by one, the slice \<^verbatim>\<open>[0:5]\<close> on the array with \<^verbatim>\<open>zero_indexes=True\<close>.
\<close>

theorem zero_indexes_open_slice_TypeError:
  "ARRAY_init (Inl Integer) False (Some 2) True
     = Inr (ARRAY_type (Integer_type Integer) False (Some 2) True)
   \<and> setup_getitem (ARRAY_type (Integer_type Integer) False (Some 2) True) None
        (SliceIndex None (Some 5) None)
     = Inl (TypeError ''unsupported operand type(s) for +: NoneType and int'' [PyNone, PyInt 1])
   \<and> getitem_type (ARRAY_type (Integer_type Integer) False (Some 2) True) None
        (SliceIndex None (Some 5) None)
     = Inl (TypeError ''unsupported operand type(s) for +: NoneType and int'' [PyNone, PyInt 1])
   \<and> setup_getitem (ARRAY_type (Integer_type Integer) False (Some 2) True) None
        (SliceIndex (Some 2) None None)
     = Inl (TypeError ''unsupported operand type(s) for +: NoneType and int'' [PyNone, PyInt 1])
   \<and> setup_getitem (ARRAY_type (Integer_type Integer) False (Some 2) False) None
        (SliceIndex None (Some 5) None)
     = Inr (operators_getitem, Slice None (Some 5) None None,
            ARRAY_type (Integer_type Integer) False (Some 2) False)
   \<and> setup_getitem (ARRAY_type (Integer_type Integer) False (Some 2) True) None
        (SliceIndex (Some 0) (Some 5) None)
     = Inr (operators_getitem, Slice (Some 1) (Some 6) None None,
            ARRAY_type (Integer_type Integer) False (Some 2) True)"
  by (simp add: ARRAY_init_def default_instance_simps getitem_type_def py_add_one_def)


section \<open>Properties of the schema-bound types\<close>

lemma snapshot_default:
  assumes "variant_mapping_for_set_table col = Some vm"
  shows "vm \<noteq> []" and "map_of vm ''_default'' = Some (column_type col)"
  using assms
  by (auto simp: variant_mapping_for_set_table_def update_conv' split: if_splits
      simp del: AList.update.simps)

lemma is_impl_for_variant_snapshot:
  assumes "variant_mapping_for_set_table col = Some vm"
  shows "is_impl_for_variant self d (Some vm) =
           Inr (case map_of vm (name d) of
                  Some t \<Rightarrow> if we_are_the_impl self t then PyBool True else PyNone
                | None \<Rightarrow> PyBool (we_are_the_impl self (column_type col)))"
  using snapshot_default [OF assms]
  by (simp add: is_impl_for_variant_def split: option.split)

text \<open>
  For a schema-bound type with the snapshot of a variant mapping, taken by
  \<^verbatim>\<open>_variant_mapping_for_set_table\<close>, the type is the active implementation for a backend if
  and only if the name of the backend is absent from the map and the type is the
  \<^verbatim>\<open>_default\<close> entry or its array item type, or the name is present and maps to this very
  type object or to an array of which it is the item type. Consequently the constraint
  that one call of \<^verbatim>\<open>_set_table\<close> of a \<^verbatim>\<open>Boolean\<close> with \<^verbatim>\<open>create_constraint=True\<close> attaches to
  a table is emitted, on a backend without native booleans that asks for the check
  constraint, as \<^verbatim>\<open>CHECK (col IN (0, 1))\<close> when the type is the active implementation, and
  not otherwise.
\<close>

lemma active_implementation_rule:
  assumes "variant_mapping_for_set_table col = Some vm"
  shows "(\<exists>r. is_impl_for_variant self d (variant_mapping_for_set_table col) = Inr r
            \<and> (py_truthy r \<longleftrightarrow>
                 (map_of vm (name d) = None
                    \<and> (\<exists>t. map_of vm ''_default'' = Some t \<and> we_are_the_impl self t))
                 \<or> (\<exists>t. map_of vm (name d) = Some t \<and> we_are_the_impl self t)))
       \<and> (we_are_the_impl self (TypeRef i) \<longleftrightarrow> i = self)
       \<and> (we_are_the_impl self (ArrayRef a item) \<longleftrightarrow> a = self \<or> item = self)
       \<and> (create_constraint b \<and> \<not> supports_native_boolean d
            \<and> non_native_boolean_check_constraint d \<and> table_constraints t = [] \<longrightarrow>
            emitted_checks d (Boolean_set_table b col t)
              = (if (map_of vm (name d) = None
                       \<and> (\<exists>t. map_of vm ''_default'' = Some t \<and> we_are_the_impl (boolean_id b) t))
                    \<or> (\<exists>t. map_of vm (name d) = Some t \<and> we_are_the_impl (boolean_id b) t)
                 then [(column_key col, [PyInt 0, PyInt 1])] else []))"
proof -
  have r: "is_impl_for_variant s d (variant_mapping_for_set_table col) =
           Inr (case map_of vm (name d) of
                  Some t \<Rightarrow> if we_are_the_impl s t then PyBool True else PyNone
                | None \<Rightarrow> PyBool (we_are_the_impl s (column_type col)))" for s
    using is_impl_for_variant_snapshot [OF assms] assms by simp
  have dflt: "map_of vm ''_default'' = Some (column_type col)"
    by (rule snapshot_default(2) [OF assms])
  have 1: "\<exists>r. is_impl_for_variant self d (variant_mapping_for_set_table col) = Inr r
            \<and> (py_truthy r \<longleftrightarrow>
                 (map_of vm (name d) = None
                    \<and> (\<exists>t. map_of vm ''_default'' = Some t \<and> we_are_the_impl self t))
                 \<or> (\<exists>t. map_of vm (name d) = Some t \<and> we_are_the_impl self t))"
    unfolding r dflt by (cases "map_of vm (name d)") auto
  have 2: "emitted_checks d (Boolean_set_table b col t)
              = (if (map_of vm (name d) = None
                       \<and> (\<exists>t. map_of vm ''_default'' = Some t \<and> we_are_the_impl (boolean_id b) t))
                    \<or> (\<exists>t. map_of vm (name d) = Some t \<and> we_are_the_impl (boolean_id b) t)
                 then [(column_key col, [PyInt 0, PyInt 1])] else [])"
    if "create_constraint b" "\<not> supports_native_boolean d"
       "non_native_boolean_check_constraint d" "table_constraints t = []"
    using that unfolding dflt
    by (cases "map_of vm (name d)")
       (auto simp: emitted_checks_def Boolean_set_table_def Let_def should_create_constraint_def r)
  from 1 2 show ?thesis by simp
qed

lemma active_implementation_examples:
  "emitted_checks emulating_dialect (Boolean_set_table flag_type flag_column \<lparr>table_constraints = []\<rparr>)
     = [(''flag'', [PyInt 0, PyInt 1])]
   \<and> emitted_checks (emulating_dialect\<lparr>name := ''mysql''\<rparr>)
        (Boolean_set_table flag_type flag_column \<lparr>table_constraints = []\<rparr>)
     = [(''flag'', [PyInt 0, PyInt 1])]
   \<and> emitted_checks (emulating_dialect\<lparr>name := ''mssql''\<rparr>)
        (Boolean_set_table flag_type flag_column \<lparr>table_constraints = []\<rparr>)
     = [(''flag'', [PyInt 0, PyInt 1])]
   \<and> emitted_checks (emulating_dialect\<lparr>name := ''oracle''\<rparr>)
        (Boolean_set_table flag_type flag_column \<lparr>table_constraints = []\<rparr>)
     = []
   \<and> is_impl_for_variant 2 (emulating_dialect\<lparr>name := ''oracle''\<rparr>)
        (variant_mapping_for_set_table flag_column) = Inr (PyBool True)
   \<and> is_impl_for_variant 2 emulating_dialect
        (variant_mapping_for_set_table flag_column) = Inr PyNone"
proof -
  let ?vm = "[(''sqlite'', TypeRef 1), (''mysql'', TypeRef 1), (''oracle'', TypeRef 2),
              (''_default'', TypeRef 1)]"
  let ?t0 = "\<lparr>table_constraints = []\<rparr>"
  have s: "variant_mapping_for_set_table flag_column = Some ?vm"
    by (simp add: variant_mapping_for_set_table_def flag_column_def)
  have ck: "column_key flag_column = ''flag''" by (simp add: flag_column_def)
  have e: "emitted_checks (emulating_dialect\<lparr>name := n\<rparr>) (Boolean_set_table flag_type flag_column ?t0)
             = (if (map_of ?vm n = None
                       \<and> (\<exists>t. map_of ?vm ''_default'' = Some t \<and> we_are_the_impl 1 t))
                    \<or> (\<exists>t. map_of ?vm n = Some t \<and> we_are_the_impl 1 t)
                 then [(''flag'', [PyInt 0, PyInt 1])] else [])" for n
    using active_implementation_rule [OF s, of 1 "emulating_dialect\<lparr>name := n\<rparr>" 0 0 0 flag_type ?t0]
    by (simp add: emulating_dialect_def flag_type_def ck)
  have e0: "emulating_dialect = emulating_dialect\<lparr>name := ''sqlite''\<rparr>"
    by (simp add: emulating_dialect_def)
  have 1: "emitted_checks emulating_dialect (Boolean_set_table flag_type flag_column ?t0)
             = [(''flag'', [PyInt 0, PyInt 1])]"
    by (subst e0, subst e) simp
  have 2: "emitted_checks (emulating_dialect\<lparr>name := ''mysql''\<rparr>)
             (Boolean_set_table flag_type flag_column ?t0) = [(''flag'', [PyInt 0, PyInt 1])]"
    by (subst e) simp
  have 3: "emitted_checks (emulating_dialect\<lparr>name := ''mssql''\<rparr>)
             (Boolean_set_table flag_type flag_column ?t0) = [(''flag'', [PyInt 0, PyInt 1])]"
    by (subst e) simp
  have 4: "emitted_checks (emulating_dialect\<lparr>name := ''oracle''\<rparr>)
             (Boolean_set_table flag_type flag_column ?t0) = []"
    by (subst e) simp
  have 5: "is_impl_for_variant 2 (emulating_dialect\<lparr>name := ''oracle''\<rparr>)
        (variant_mapping_for_set_table flag_column) = Inr (PyBool True)"
    by (simp add: s is_impl_for_variant_def)
  have 6: "is_impl_for_variant 2 emulating_dialect
        (variant_mapping_for_set_table flag_column) = Inr PyNone"
    by (simp add: s is_impl_for_variant_def emulating_dialect_def)
  from 1 2 3 4 5 6 show ?thesis by blast
qed

text \<open>
  C2. A schema-bound \<^verbatim>\<open>Boolean\<close> with \<^verbatim>\<open>create_constraint=True\<close> is to emit, on a backend
  without native booleans that asks for the check constraint, exactly one
  \<^verbatim>\<open>CHECK (col IN (0, 1))\<close> for a table, also when the same object stands under several backend
  names of a variant mapping. The code does not do so: \<^verbatim>\<open>_set_table\<close> runs once for the type
  of the column and once for every backend name of the variant mapping, and every run of
  it attaches a constraint of its own, so that the object that is the active
  implementation emits one constraint for each of its attachments. On the backend
  \<^verbatim>\<open>sqlite\<close>, the column whose variant mapping holds the object 1 under \<^verbatim>\<open>sqlite\<close> and \<^verbatim>\<open>mysql\<close>
  emits the constraint twice, and three times when the object 1 is the type of the column
  as well; one run of \<^verbatim>\<open>_set_table\<close> emits it once.
\<close>

theorem Boolean_check_emitted_per_attachment:
  "supports_native_boolean emulating_dialect = False
   \<and> non_native_boolean_check_constraint emulating_dialect = True
   \<and> name emulating_dialect = ''sqlite''
   \<and> on_table_attach variant_flag_column = [0, 1, 1]
   \<and> emitted_checks emulating_dialect
        (attach_to_table flag_types variant_flag_column \<lparr>table_constraints = []\<rparr>)
     = [(''flag'', [PyInt 0, PyInt 1]), (''flag'', [PyInt 0, PyInt 1])]
   \<and> on_table_attach flag_column = [1, 1, 1, 2]
   \<and> emitted_checks emulating_dialect
        (attach_to_table flag_types flag_column \<lparr>table_constraints = []\<rparr>)
     = [(''flag'', [PyInt 0, PyInt 1]), (''flag'', [PyInt 0, PyInt 1]),
        (''flag'', [PyInt 0, PyInt 1])]
   \<and> emitted_checks emulating_dialect
        (Boolean_set_table flag_type variant_flag_column \<lparr>table_constraints = []\<rparr>)
     = [(''flag'', [PyInt 0, PyInt 1])]"
  by (simp add: emulating_dialect_def on_table_attach_def variant_flag_column_def flag_column_def
      attach_to_table_def set_table_of_def flag_types_def flag_type_def Boolean_set_table_def
      Let_def emitted_checks_def should_create_constraint_def is_impl_for_variant_def
      variant_mapping_for_set_table_def)

end
